theory Spec2Isabelle
  imports Main "HOL-Library.AList"
begin

section \<open>Values, dictionaries and failures\<close>

text \<open>
  The values that travel through \<^verbatim>\<open>BlockingHttpSurrealConnection\<close>
  (\<^verbatim>\<open>src/surrealdb/connections/blocking_http.py\<close>): Python's \<^verbatim>\<open>None\<close>,
  booleans, unbounded integers, strings, lists, string-keyed dictionaries, and the two
  identifier objects \<^verbatim>\<open>RecordID(table_name, identifier)\<close> and \<^verbatim>\<open>Table\<close>.
  A dictionary is an association list in insertion order; \<^verbatim>\<open>d[k] = v\<close> is
  \<open>AList.update k v d\<close> (an existing key keeps its place, a new key goes last),
  \<^verbatim>\<open>d.get(k)\<close> and \<^verbatim>\<open>d[k]\<close> read \<open>map_of d k\<close>. A Python dictionary has
  no duplicate keys: \<open>distinct (map fst d)\<close>.
\<close>

datatype pyval =
    VNone
  | VBool bool
  | VInt int
  | VStr string
  | VList "pyval list"
  | VDict "(string \<times> pyval) list"
  | VRecordID string pyval
  | VTable string

type_synonym pydict = "(string \<times> pyval) list"

text \<open>
  Every exception a call can end with. \<open>TransportError\<close> stands for whatever
  \<^verbatim>\<open>requests.post\<close>, \<^verbatim>\<open>raise_for_status\<close> or the decoder raise;
  \<open>RemoteError code message label\<close> and \<open>ProtocolError label\<close> are the two
  failures of the response validator; the others are Python's own.
\<close>

datatype error =
    TransportError string
  | RemoteError pyval pyval string
  | ProtocolError string
  | KeyError string
  | IndexError
  | TypeError

text \<open>Truthiness, as \<^verbatim>\<open>if self.token:\<close> tests it.\<close>

fun truthy :: "pyval \<Rightarrow> bool" where
  "truthy VNone = False"
| "truthy (VBool b) = b"
| "truthy (VInt i) = (i \<noteq> 0)"
| "truthy (VStr s) = (s \<noteq> [])"
| "truthy (VList xs) = (xs \<noteq> [])"
| "truthy (VDict d) = (d \<noteq> [])"
| "truthy (VRecordID t i) = True"
| "truthy (VTable t) = True"

text \<open>\<^verbatim>\<open>d.get(k)\<close>: the value, or \<^verbatim>\<open>None\<close> for a missing key.\<close>

definition dict_get :: "pydict \<Rightarrow> string \<Rightarrow> pyval" where
  "dict_get d k = (case map_of d k of None \<Rightarrow> VNone | Some v \<Rightarrow> v)"

text \<open>\<^verbatim>\<open>d[k]\<close> on a dictionary raises \<^verbatim>\<open>KeyError\<close> for a missing key.\<close>

definition getitem :: "pydict \<Rightarrow> string \<Rightarrow> error + pyval" where
  "getitem d k = (case map_of d k of None \<Rightarrow> Inl (KeyError k) | Some v \<Rightarrow> Inr v)"

text \<open>\<^verbatim>\<open>x[0]\<close> and \<^verbatim>\<open>x["result"]\<close> on an arbitrary decoded value.\<close>

fun subscript_zero :: "pyval \<Rightarrow> error + pyval" where
  "subscript_zero (VList []) = Inl IndexError"
| "subscript_zero (VList (x # xs)) = Inr x"
| "subscript_zero (VStr []) = Inl IndexError"
| "subscript_zero (VStr (c # cs)) = Inr (VStr [c])"
| "subscript_zero (VDict d) = Inl (KeyError ''0'')"
| "subscript_zero v = Inl TypeError"

fun subscript_key :: "pyval \<Rightarrow> string \<Rightarrow> error + pyval" where
  "subscript_key (VDict d) k = getitem d k"
| "subscript_key v k = Inl TypeError"

text \<open>\<^verbatim>\<open>s.split(sep)\<close> for a one-character separator: every occurrence splits.\<close>

fun split_str :: "char \<Rightarrow> string \<Rightarrow> string list" where
  "split_str sep [] = [[]]"
| "split_str sep (c # cs) =
     (if c = sep then [] # split_str sep cs
      else (case split_str sep cs of [] \<Rightarrow> [[c]] | w # ws \<Rightarrow> (c # w) # ws))"

text \<open>\<^verbatim>\<open>s.rstrip("/")\<close>.\<close>

definition rstrip :: "char \<Rightarrow> string \<Rightarrow> string" where
  "rstrip ch s = rev (dropWhile (\<lambda>c. c = ch) (rev s))"

section \<open>Envelope, request and connection\<close>

datatype RequestMethod =
    USE | SIGN_IN | SIGN_UP | AUTHENTICATE | INVALIDATE | INFO | VERSION
  | QUERY | CREATE | DELETE | INSERT | INSERT_RELATION | MERGE | PATCH
  | SELECT | UPDATE | UPSERT

record request_message =
  msg_id :: string
  msg_method :: RequestMethod
  kwargs :: pydict

text \<open>
  Modelled from the spec: the class \<^verbatim>\<open>RequestMessage\<close>
  (\<^verbatim>\<open>surrealdb/request_message/message.py\<close>) is not among the sources. The spec
  (3, 4.1) gives an envelope with a correlation id freshly generated per call, a method
  of the fixed verb set and the call's arguments; construction has no other effect.
  The fresh id is an input, \<open>fresh\<close>, of the constructor and of every operation
  that builds an envelope.
\<close>

definition RequestMessage :: "string \<Rightarrow> RequestMethod \<Rightarrow> pydict \<Rightarrow> request_message" where
  "RequestMessage fresh m kw = \<lparr>msg_id = fresh, msg_method = m, kwargs = kw\<rparr>"

text \<open>
  What \<^verbatim>\<open>requests.post(url, headers=headers, data=data, timeout=30)\<close> is given.
  \<open>req_data\<close> is the envelope whose \<^verbatim>\<open>WS_CBOR_DESCRIPTOR\<close> is posted: the
  binary codec is outside the sources, so the body is kept as the envelope itself.
\<close>

record http_request =
  req_url :: string
  req_headers :: "(string \<times> string) list"
  req_data :: request_message
  req_timeout :: int

text \<open>
  The world outside the connection. \<open>post r\<close> is the outcome of posting \<open>r\<close>,
  checking the status and decoding the body: \<open>Inl\<close> a transport failure, \<open>Inr\<close>
  the decoded payload. \<open>py_str\<close> is Python's \<^verbatim>\<open>str()\<close>, used by the f-string
  of the \<^verbatim>\<open>Authorization\<close> header and by \<^verbatim>\<open>signin\<close>.
\<close>

record env =
  post :: "http_request \<Rightarrow> string + pydict"
  py_str :: "pyval \<Rightarrow> string"

text \<open>The parsed address \<^verbatim>\<open>Url(url)\<close>; its parser is outside the sources.\<close>

record Url =
  raw_url :: string
  hostname :: "string option"
  port :: "int option"

text \<open>
  The fields of \<^verbatim>\<open>BlockingHttpSurrealConnection\<close>, as \<^verbatim>\<open>__init__\<close> declares
  them. \<^verbatim>\<open>self.raw_url\<close>, \<^verbatim>\<open>self.port\<close> and \<^verbatim>\<open>self.id\<close> are
  \<open>self_raw_url\<close>, \<open>self_port\<close> and \<open>self_id\<close> here. \<^verbatim>\<open>self.token\<close> is a
  \<open>pyval\<close>, because \<^verbatim>\<open>signup\<close> and \<^verbatim>\<open>signin\<close> store whatever the server
  sent as \<^verbatim>\<open>result\<close>.
\<close>

record conn =
  url :: Url
  self_raw_url :: string
  host :: "string option"
  self_port :: "int option"
  token :: pyval
  self_id :: string
  namespace :: "string option"
  database :: "string option"
  vars :: pydict

text \<open>
  \<^verbatim>\<open>__init__(url)\<close>; \<open>parse\<close> is the \<^verbatim>\<open>Url\<close> constructor and \<open>uuid\<close> the
  string of the \<^verbatim>\<open>uuid.uuid4()\<close> drawn.
\<close>

definition init :: "(string \<Rightarrow> Url) \<Rightarrow> string \<Rightarrow> string \<Rightarrow> conn" where
  "init parse uuid u =
     \<lparr>url = parse u, self_raw_url = rstrip CHR ''/'' u, host = hostname (parse u),
      self_port = port (parse u), token = VNone, self_id = uuid,
      namespace = None, database = None, vars = []\<rparr>"

section \<open>Response validator\<close>

text \<open>
  Modelled from the spec: \<^verbatim>\<open>check_response_for_error\<close> belongs to
  \<^verbatim>\<open>UtilsMixin\<close> (\<^verbatim>\<open>surrealdb/connections/utils_mixin.py\<close>), which is not among
  the sources. Spec 4.3: \<^verbatim>\<open>check(payload, operationLabel)\<close> fails with a RemoteError
  carrying (code, message, operationLabel) when \<^verbatim>\<open>payload.error\<close> is present, and
  returns normally otherwise. The code and the message are read from the error object;
  a field the object lacks is carried as \<open>VNone\<close>.
\<close>

definition error_field :: "pyval \<Rightarrow> string \<Rightarrow> pyval" where
  "error_field e k = (case e of VDict d \<Rightarrow> dict_get d k | _ \<Rightarrow> VNone)"

definition check_response_for_error :: "pydict \<Rightarrow> string \<Rightarrow> error + unit" where
  "check_response_for_error response process =
     (case map_of response ''error'' of
        None \<Rightarrow> Inr ()
      | Some e \<Rightarrow> Inl (RemoteError (error_field e ''code'') (error_field e ''message'') process))"

text \<open>
  Modelled from the spec: \<^verbatim>\<open>check_response_for_result\<close> belongs to the same absent
  \<^verbatim>\<open>UtilsMixin\<close>. Spec 4.3: \<^verbatim>\<open>extractResult(payload, operationLabel)\<close> fails
  with a ProtocolError when \<^verbatim>\<open>payload.result\<close> is absent, and returns
  \<^verbatim>\<open>payload.result\<close> otherwise.
\<close>

definition check_response_for_result :: "pydict \<Rightarrow> string \<Rightarrow> error + pyval" where
  "check_response_for_result response process =
     (case map_of response ''result'' of
        None \<Rightarrow> Inl (ProtocolError process)
      | Some r \<Rightarrow> Inr r)"

section \<open>The dispatcher\<close>

text \<open>
  The header lines of \<^verbatim>\<open>_send\<close>: the two fixed headers, then
  \<^verbatim>\<open>Authorization\<close>, \<^verbatim>\<open>Surreal-NS\<close> and \<^verbatim>\<open>Surreal-DB\<close>, each under
  its own test. \<^verbatim>\<open>if self.namespace:\<close> holds for a string that is set and not
  empty; likewise for the database.
\<close>

definition send_headers :: "env \<Rightarrow> conn \<Rightarrow> (string \<times> string) list" where
  "send_headers e self =
     (let headers = [(''Accept'', ''application/cbor''), (''Content-Type'', ''application/cbor'')];
          headers = (if truthy (token self)
                     then AList.update ''Authorization'' (''Bearer '' @ py_str e (token self)) headers
                     else headers);
          headers = (case namespace self of
                       None \<Rightarrow> headers
                     | Some ns \<Rightarrow> if ns \<noteq> [] then AList.update ''Surreal-NS'' ns headers
                                else headers);
          headers = (case database self of
                       None \<Rightarrow> headers
                     | Some db \<Rightarrow> if db \<noteq> [] then AList.update ''Surreal-DB'' db headers
                                else headers)
      in headers)"

text \<open>
  \<^verbatim>\<open>_send(message, operation, bypass=False)\<close>. It reads the connection and does
  not change it. The second component is the list of requests put on the wire by the
  call: one, always.
\<close>

definition send ::
  "env \<Rightarrow> conn \<Rightarrow> request_message \<Rightarrow> string \<Rightarrow> bool \<Rightarrow> (error + pydict) \<times> http_request list" where
  "send e self message operation bypass =
     (let data = message;
          u = raw_url (url self) @ ''/rpc'';
          headers = send_headers e self;
          r = \<lparr>req_url = u, req_headers = headers, req_data = data, req_timeout = 30\<rparr>
      in case post e r of
           Inl failure \<Rightarrow> (Inl (TransportError failure), [r])
         | Inr data_dict \<Rightarrow>
             (if \<not> bypass
              then (case check_response_for_error data_dict operation of
                      Inl err \<Rightarrow> (Inl err, [r])
                    | Inr _ \<Rightarrow> (Inr data_dict, [r]))
              else (Inr data_dict, [r])))"

text \<open>
  The request \<^verbatim>\<open>_send\<close> posts for an envelope, and the three parts of what an
  operation returns.
\<close>

definition request_of :: "env \<Rightarrow> conn \<Rightarrow> request_message \<Rightarrow> http_request" where
  "request_of e self m =
     \<lparr>req_url = raw_url (url self) @ ''/rpc'', req_headers = send_headers e self,
      req_data = m, req_timeout = 30\<rparr>"

definition result_of :: "'a \<times> conn \<times> http_request list \<Rightarrow> 'a" where
  "result_of x = fst x"

definition conn_of :: "'a \<times> conn \<times> http_request list \<Rightarrow> conn" where
  "conn_of x = fst (snd x)"

definition wire_of :: "'a \<times> conn \<times> http_request list \<Rightarrow> http_request list" where
  "wire_of x = snd (snd x)"

section \<open>The operations\<close>

text \<open>
  Every operation takes the world \<open>e\<close>, the connection \<open>self\<close> and, when it
  builds an envelope, the fresh correlation id; it returns what the call returns or
  raises, the connection as the call leaves it (also when it raises), and the requests
  it put on the wire. \<^verbatim>\<open>_send\<close>, \<^verbatim>\<open>insert\<close> and \<^verbatim>\<open>let\<close> are
  \<open>send\<close>, \<open>insert_op\<close> and \<open>let_op\<close> here; the other operations keep their
  names.
\<close>

text \<open>
  The two closing lines of most operations:
  \<^verbatim>\<open>self.check_response_for_result(response, label); return response["result"]\<close>.
\<close>

definition checked_result :: "pydict \<Rightarrow> string \<Rightarrow> error + pyval" where
  "checked_result response label =
     (case check_response_for_result response label of
        Inl err \<Rightarrow> Inl err
      | Inr _ \<Rightarrow> getitem response ''result'')"

definition set_token :: "conn \<Rightarrow> string \<Rightarrow> conn" where
  "set_token self t = self\<lparr>token := VStr t\<rparr>"

definition authenticate ::
  "env \<Rightarrow> conn \<Rightarrow> string \<Rightarrow> string \<Rightarrow> (error + unit) \<times> conn \<times> http_request list" where
  "authenticate e self fresh t =
     (let self = self\<lparr>token := VStr t\<rparr>;
          message = RequestMessage fresh AUTHENTICATE [(''token'', VStr t)];
          self = self\<lparr>self_id := msg_id message\<rparr>;
          (response, wire) = send e self message ''authenticating'' False
      in case response of
           Inl err \<Rightarrow> (Inl err, self, wire)
         | Inr _ \<Rightarrow> (Inr (), self, wire))"

definition invalidate ::
  "env \<Rightarrow> conn \<Rightarrow> string \<Rightarrow> (error + unit) \<times> conn \<times> http_request list" where
  "invalidate e self fresh =
     (let message = RequestMessage fresh INVALIDATE [];
          self = self\<lparr>self_id := msg_id message\<rparr>;
          (response, wire) = send e self message ''invalidating'' False
      in case response of
           Inl err \<Rightarrow> (Inl err, self, wire)
         | Inr _ \<Rightarrow> (Inr (), self\<lparr>token := VNone\<rparr>, wire))"

definition signup ::
  "env \<Rightarrow> conn \<Rightarrow> string \<Rightarrow> pydict \<Rightarrow> (error + pyval) \<times> conn \<times> http_request list" where
  "signup e self fresh vs =
     (let message = RequestMessage fresh SIGN_UP [(''data'', VDict vs)];
          self = self\<lparr>self_id := msg_id message\<rparr>;
          (response, wire) = send e self message ''signup'' False
      in case response of
           Inl err \<Rightarrow> (Inl err, self, wire)
         | Inr response \<Rightarrow>
             (case checked_result response ''signup'' of
                Inl err \<Rightarrow> (Inl err, self, wire)
              | Inr r \<Rightarrow> (Inr r, self\<lparr>token := r\<rparr>, wire)))"

definition signin ::
  "env \<Rightarrow> conn \<Rightarrow> string \<Rightarrow> pydict \<Rightarrow> (error + pyval) \<times> conn \<times> http_request list" where
  "signin e self fresh vs =
     (let message = RequestMessage fresh SIGN_IN
            [(''username'', dict_get vs ''username''),
             (''password'', dict_get vs ''password''),
             (''access'', dict_get vs ''access''),
             (''database'', dict_get vs ''database''),
             (''namespace'', dict_get vs ''namespace''),
             (''variables'', dict_get vs ''variables'')];
          self = self\<lparr>self_id := msg_id message\<rparr>;
          (response, wire) = send e self message ''signing in'' False
      in case response of
           Inl err \<Rightarrow> (Inl err, self, wire)
         | Inr response \<Rightarrow>
             (case checked_result response ''signing in'' of
                Inl err \<Rightarrow> (Inl err, self, wire)
              | Inr r \<Rightarrow> (Inr (VStr (py_str e r)), self\<lparr>token := r\<rparr>, wire)))"

definition info ::
  "env \<Rightarrow> conn \<Rightarrow> string \<Rightarrow> (error + pyval) \<times> conn \<times> http_request list" where
  "info e self fresh =
     (let message = RequestMessage fresh INFO [];
          self = self\<lparr>self_id := msg_id message\<rparr>;
          (response, wire) = send e self message ''getting database information'' False
      in case response of
           Inl err \<Rightarrow> (Inl err, self, wire)
         | Inr response \<Rightarrow> (checked_result response ''getting database information'', self, wire))"

definition use ::
  "env \<Rightarrow> conn \<Rightarrow> string \<Rightarrow> string \<Rightarrow> string \<Rightarrow> (error + unit) \<times> conn \<times> http_request list" where
  "use e self fresh ns db =
     (let message = RequestMessage fresh USE [(''namespace'', VStr ns), (''database'', VStr db)];
          self = self\<lparr>self_id := msg_id message\<rparr>;
          (response, wire) = send e self message ''use'' False
      in case response of
           Inl err \<Rightarrow> (Inl err, self, wire)
         | Inr _ \<Rightarrow> (Inr (), self\<lparr>namespace := Some ns, database := Some db\<rparr>, wire))"

text \<open>
  The loop \<^verbatim>\<open>for key, value in self.vars.items(): vars[key] = value\<close> of
  \<^verbatim>\<open>query\<close> and \<^verbatim>\<open>query_raw\<close>, over the items in insertion order.
\<close>

fun write_vars :: "pydict \<Rightarrow> pydict \<Rightarrow> pydict" where
  "write_vars [] vs = vs"
| "write_vars ((key, val) # items) vs = write_vars items (AList.update key val vs)"

text \<open>
  \<^verbatim>\<open>query(query, vars=None)\<close>. The loop writes into the dictionary the caller
  passed, not into a copy; the second component of the pair is that dictionary object
  as the call leaves it (for \<^verbatim>\<open>vars=None\<close>, the dictionary the call made itself).
\<close>

definition query ::
  "env \<Rightarrow> conn \<Rightarrow> string \<Rightarrow> string \<Rightarrow> pydict option
     \<Rightarrow> ((error + pyval) \<times> conn \<times> http_request list) \<times> pydict" where
  "query e self fresh q vs =
     (let vs = (case vs of None \<Rightarrow> [] | Some d \<Rightarrow> d);
          vs = write_vars (vars self) vs;
          message = RequestMessage fresh QUERY [(''query'', VStr q), (''params'', VDict vs)];
          self = self\<lparr>self_id := msg_id message\<rparr>;
          (response, wire) = send e self message ''query'' False
      in case response of
           Inl err \<Rightarrow> ((Inl err, self, wire), vs)
         | Inr response \<Rightarrow>
             (case check_response_for_result response ''query'' of
                Inl err \<Rightarrow> ((Inl err, self, wire), vs)
              | Inr _ \<Rightarrow>
                 (case getitem response ''result'' of
                    Inl err \<Rightarrow> ((Inl err, self, wire), vs)
                  | Inr r \<Rightarrow>
                     (case subscript_zero r of
                        Inl err \<Rightarrow> ((Inl err, self, wire), vs)
                      | Inr r0 \<Rightarrow> ((subscript_key r0 ''result'', self, wire), vs)))))"

definition query_raw ::
  "env \<Rightarrow> conn \<Rightarrow> string \<Rightarrow> string \<Rightarrow> pydict option
     \<Rightarrow> ((error + pydict) \<times> conn \<times> http_request list) \<times> pydict" where
  "query_raw e self fresh q params =
     (let params = (case params of None \<Rightarrow> [] | Some d \<Rightarrow> d);
          params = write_vars (vars self) params;
          message = RequestMessage fresh QUERY [(''query'', VStr q), (''params'', VDict params)];
          self = self\<lparr>self_id := msg_id message\<rparr>;
          (response, wire) = send e self message ''query'' True
      in ((response, self, wire), params))"

text \<open>
  \<^verbatim>\<open>create(thing, data=None)\<close>: a string holding a colon is split at every colon
  and the first two pieces make the \<^verbatim>\<open>RecordID\<close>. \<^verbatim>\<open>buffer[1]\<close> exists whenever
  the string holds a colon; the \<open>IndexError\<close> branch keeps the model total.
\<close>

definition create ::
  "env \<Rightarrow> conn \<Rightarrow> string \<Rightarrow> pyval \<Rightarrow> pyval \<Rightarrow> (error + pyval) \<times> conn \<times> http_request list" where
  "create e self fresh thing data =
     (case (case thing of
              VStr s \<Rightarrow>
                (if CHR '':'' \<in> set s
                 then (case split_str CHR '':'' s of
                         b0 # b1 # _ \<Rightarrow> Inr (VRecordID b0 (VStr b1))
                       | _ \<Rightarrow> Inl IndexError)
                 else Inr thing)
            | _ \<Rightarrow> Inr thing) of
        Inl err \<Rightarrow> (Inl err, self, [])
      | Inr thing \<Rightarrow>
          (let message = RequestMessage fresh CREATE [(''collection'', thing), (''data'', data)];
               self = self\<lparr>self_id := msg_id message\<rparr>;
               (response, wire) = send e self message ''create'' False
           in case response of
                Inl err \<Rightarrow> (Inl err, self, wire)
              | Inr response \<Rightarrow> (checked_result response ''create'', self, wire)))"

definition delete ::
  "env \<Rightarrow> conn \<Rightarrow> string \<Rightarrow> pyval \<Rightarrow> (error + pyval) \<times> conn \<times> http_request list" where
  "delete e self fresh thing =
     (let message = RequestMessage fresh DELETE [(''record_id'', thing)];
          self = self\<lparr>self_id := msg_id message\<rparr>;
          (response, wire) = send e self message ''delete'' False
      in case response of
           Inl err \<Rightarrow> (Inl err, self, wire)
         | Inr response \<Rightarrow> (checked_result response ''delete'', self, wire))"

definition insert_op ::
  "env \<Rightarrow> conn \<Rightarrow> string \<Rightarrow> pyval \<Rightarrow> pyval \<Rightarrow> (error + pyval) \<times> conn \<times> http_request list" where
  "insert_op e self fresh table data =
     (let message = RequestMessage fresh INSERT [(''collection'', table), (''params'', data)];
          self = self\<lparr>self_id := msg_id message\<rparr>;
          (response, wire) = send e self message ''insert'' False
      in case response of
           Inl err \<Rightarrow> (Inl err, self, wire)
         | Inr response \<Rightarrow> (checked_result response ''insert'', self, wire))"

definition insert_relation ::
  "env \<Rightarrow> conn \<Rightarrow> string \<Rightarrow> pyval \<Rightarrow> pyval \<Rightarrow> (error + pyval) \<times> conn \<times> http_request list" where
  "insert_relation e self fresh table data =
     (let message = RequestMessage fresh INSERT_RELATION [(''table'', table), (''params'', data)];
          self = self\<lparr>self_id := msg_id message\<rparr>;
          (response, wire) = send e self message ''insert_relation'' False
      in case response of
           Inl err \<Rightarrow> (Inl err, self, wire)
         | Inr response \<Rightarrow> (checked_result response ''insert_relation'', self, wire))"

text \<open>
  \<^verbatim>\<open>let(key, value)\<close> and \<^verbatim>\<open>unset(key)\<close> work on \<^verbatim>\<open>self.vars\<close> alone;
  \<^verbatim>\<open>pop\<close> of a missing key raises \<^verbatim>\<open>KeyError\<close>.
\<close>

definition let_op :: "conn \<Rightarrow> string \<Rightarrow> pyval \<Rightarrow> unit \<times> conn \<times> http_request list" where
  "let_op self key val = ((), self\<lparr>vars := AList.update key val (vars self)\<rparr>, [])"

definition unset :: "conn \<Rightarrow> string \<Rightarrow> (error + unit) \<times> conn \<times> http_request list" where
  "unset self key =
     (case map_of (vars self) key of
        None \<Rightarrow> (Inl (KeyError key), self, [])
      | Some _ \<Rightarrow> (Inr (), self\<lparr>vars := AList.delete key (vars self)\<rparr>, []))"

definition merge ::
  "env \<Rightarrow> conn \<Rightarrow> string \<Rightarrow> pyval \<Rightarrow> pyval \<Rightarrow> (error + pyval) \<times> conn \<times> http_request list" where
  "merge e self fresh thing data =
     (let message = RequestMessage fresh MERGE [(''record_id'', thing), (''data'', data)];
          self = self\<lparr>self_id := msg_id message\<rparr>;
          (response, wire) = send e self message ''merge'' False
      in case response of
           Inl err \<Rightarrow> (Inl err, self, wire)
         | Inr response \<Rightarrow> (checked_result response ''merge'', self, wire))"

definition patch ::
  "env \<Rightarrow> conn \<Rightarrow> string \<Rightarrow> pyval \<Rightarrow> pyval \<Rightarrow> (error + pyval) \<times> conn \<times> http_request list" where
  "patch e self fresh thing data =
     (let message = RequestMessage fresh PATCH [(''collection'', thing), (''params'', data)];
          self = self\<lparr>self_id := msg_id message\<rparr>;
          (response, wire) = send e self message ''patch'' False
      in case response of
           Inl err \<Rightarrow> (Inl err, self, wire)
         | Inr response \<Rightarrow> (checked_result response ''patch'', self, wire))"

definition select ::
  "env \<Rightarrow> conn \<Rightarrow> string \<Rightarrow> pyval \<Rightarrow> (error + pyval) \<times> conn \<times> http_request list" where
  "select e self fresh thing =
     (let message = RequestMessage fresh SELECT [(''params'', VList [thing])];
          self = self\<lparr>self_id := msg_id message\<rparr>;
          (response, wire) = send e self message ''select'' False
      in case response of
           Inl err \<Rightarrow> (Inl err, self, wire)
         | Inr response \<Rightarrow> (checked_result response ''select'', self, wire))"

definition update ::
  "env \<Rightarrow> conn \<Rightarrow> string \<Rightarrow> pyval \<Rightarrow> pyval \<Rightarrow> (error + pyval) \<times> conn \<times> http_request list" where
  "update e self fresh thing data =
     (let message = RequestMessage fresh UPDATE [(''record_id'', thing), (''data'', data)];
          self = self\<lparr>self_id := msg_id message\<rparr>;
          (response, wire) = send e self message ''update'' False
      in case response of
           Inl err \<Rightarrow> (Inl err, self, wire)
         | Inr response \<Rightarrow> (checked_result response ''update'', self, wire))"

definition version ::
  "env \<Rightarrow> conn \<Rightarrow> string \<Rightarrow> (error + pyval) \<times> conn \<times> http_request list" where
  "version e self fresh =
     (let message = RequestMessage fresh VERSION [];
          self = self\<lparr>self_id := msg_id message\<rparr>;
          (response, wire) = send e self message ''getting database version'' False
      in case response of
           Inl err \<Rightarrow> (Inl err, self, wire)
         | Inr response \<Rightarrow> (checked_result response ''getting database version'', self, wire))"

definition upsert ::
  "env \<Rightarrow> conn \<Rightarrow> string \<Rightarrow> pyval \<Rightarrow> pyval \<Rightarrow> (error + pyval) \<times> conn \<times> http_request list" where
  "upsert e self fresh thing data =
     (let message = RequestMessage fresh UPSERT [(''record_id'', thing), (''data'', data)];
          self = self\<lparr>self_id := msg_id message\<rparr>;
          (response, wire) = send e self message ''upsert'' False
      in case response of
           Inl err \<Rightarrow> (Inl err, self, wire)
         | Inr response \<Rightarrow> (checked_result response ''upsert'', self, wire))"

section \<open>Notions used by the statements\<close>

text \<open>
  What \<^verbatim>\<open>create\<close> puts into the envelope as \<^verbatim>\<open>collection\<close>: for a string
  holding a colon, \<^verbatim>\<open>RecordID(table_name=buffer[0], identifier=buffer[1])\<close> of the
  split string; anything else as it came.
\<close>

definition create_collection :: "pyval \<Rightarrow> pyval" where
  "create_collection thing =
     (case thing of
        VStr s \<Rightarrow>
          (if CHR '':'' \<in> set s
           then VRecordID (split_str CHR '':'' s ! 0) (VStr (split_str CHR '':'' s ! 1))
           else thing)
      | _ \<Rightarrow> thing)"

text \<open>
  \<open>dispatched fresh m x\<close>: the call with outcome \<open>x\<close> put exactly one request on the
  wire, its envelope has the correlation id \<open>fresh\<close> and the method \<open>m\<close>, and the
  connection's id is \<open>fresh\<close> afterwards.
\<close>

definition dispatched ::
  "string \<Rightarrow> RequestMethod \<Rightarrow> 'a \<times> conn \<times> http_request list \<Rightarrow> bool" where
  "dispatched fresh m x =
     ((case wire_of x of
         [r] \<Rightarrow> msg_id (req_data r) = fresh \<and> msg_method (req_data r) = m
       | _ \<Rightarrow> False)
      \<and> self_id (conn_of x) = fresh)"

text \<open>
  \<open>validated e label x\<close>: the call put one request on the wire, and when its decoded
  response does not pass \<open>check_response_for_error\<close> under \<open>label\<close>, the call
  ends with that failure.
\<close>

definition validated ::
  "env \<Rightarrow> string \<Rightarrow> (error + 'a) \<times> conn \<times> http_request list \<Rightarrow> bool" where
  "validated e label x =
     (case wire_of x of
        [r] \<Rightarrow>
          (case post e r of
             Inl failure \<Rightarrow> True
           | Inr payload \<Rightarrow>
               (case check_response_for_error payload label of
                  Inl err \<Rightarrow> result_of x = Inl err
                | Inr _ \<Rightarrow> True))
      | _ \<Rightarrow> False)"

section \<open>Sample worlds and connections\<close>

text \<open>
  Concrete inputs for the examples below: a \<^verbatim>\<open>str()\<close> that is right on strings, a
  server that is down, a server that answers every request with one payload, and a
  freshly constructed connection.
\<close>

definition sample_str :: "pyval \<Rightarrow> string" where
  "sample_str v = (case v of VStr s \<Rightarrow> s | _ \<Rightarrow> ''?'')"

definition world_down :: env where
  "world_down = \<lparr>post = (\<lambda>r. Inl ''503 Service Unavailable''), py_str = sample_str\<rparr>"

definition world_reply :: "pydict \<Rightarrow> env" where
  "world_reply payload = \<lparr>post = (\<lambda>r. Inr payload), py_str = sample_str\<rparr>"

definition sample_parse :: "string \<Rightarrow> Url" where
  "sample_parse u = \<lparr>raw_url = u, hostname = Some ''localhost'', port = Some 8000\<rparr>"

definition c0 :: conn where
  "c0 = init sample_parse ''uuid-0'' ''http://localhost:8000''"

text \<open>
  Three decoded payloads: a one-statement query answer, a server-side error, and an
  answer whose result is \<^verbatim>\<open>None\<close>.
\<close>

definition payload_rows :: pydict where
  "payload_rows = [(''result'', VList [VDict [(''result'', VList [VDict [(''id'', VStr ''t:1'')]])]])]"

definition payload_error :: pydict where
  "payload_error = [(''error'', VDict [(''code'', VInt 100), (''message'', VStr ''boom'')])]"

definition payload_ok :: pydict where
  "payload_ok = [(''result'', VNone)]"

section \<open>Auxiliary facts\<close>

lemma proj_simps [simp]:
  "result_of (a, b, c) = a" "conn_of (a, b, c) = b" "wire_of (a, b, c) = c"
  by (simp_all add: result_of_def conn_of_def wire_of_def)

lemma msg_simps [simp]:
  "msg_id (RequestMessage fresh m kw) = fresh"
  "msg_method (RequestMessage fresh m kw) = m"
  "kwargs (RequestMessage fresh m kw) = kw"
  by (simp_all add: RequestMessage_def)

lemma split_str_nonempty: "split_str c s \<noteq> []"
  by (induction s) (auto split: list.splits)

lemma split_str_colon: "c \<in> set s \<Longrightarrow> \<exists>a b rest. split_str c s = a # b # rest"
proof (induction s)
  case Nil
  then show ?case by simp
next
  case (Cons x xs)
  show ?case
  proof (cases "x = c")
    case True
    obtain w ws where "split_str c xs = w # ws"
      using split_str_nonempty [of c xs] by (cases "split_str c xs") auto
    with True show ?thesis by simp
  next
    case False
    with Cons.prems have "c \<in> set xs" by auto
    then obtain a b rest where "split_str c xs = a # b # rest"
      using Cons.IH by blast
    with False show ?thesis by simp
  qed
qed

lemma write_vars_lookup:
  "distinct (map fst items) \<Longrightarrow>
   map_of (write_vars items vs) k = (case map_of items k of Some v \<Rightarrow> Some v | None \<Rightarrow> map_of vs k)"
proof (induction items arbitrary: vs)
  case Nil
  then show ?case by simp
next
  case (Cons kv items)
  obtain k' v' where kv: "kv = (k', v')" by (cases kv)
  from Cons.prems kv have d: "distinct (map fst items)" and n: "k' \<notin> fst ` set items"
    by auto
  from n have none: "map_of items k' = None"
    by (simp add: map_of_eq_None_iff)
  show ?case
  proof (cases "k = k'")
    case True
    then show ?thesis
      using Cons.IH [OF d, of "AList.update k' v' vs"] none kv
      by (simp add: AList.update_conv')
  next
    case False
    then show ?thesis
      using Cons.IH [OF d, of "AList.update k' v' vs"] kv
      by (simp add: AList.update_conv' split: option.splits)
  qed
qed

lemma distinct_write_vars:
  "distinct (map fst vs) \<Longrightarrow> distinct (map fst (write_vars items vs))"
proof (induction items arbitrary: vs)
  case Nil
  then show ?case by simp
next
  case (Cons kv items)
  obtain k' v' where kv: "kv = (k', v')" by (cases kv)
  show ?case
    unfolding kv using Cons.prems by (simp add: Cons.IH AList.distinct_update)
qed

lemma send_wire: "snd (send e self m l b) = [request_of e self m]"
  unfolding send_def Let_def request_of_def by (simp split: sum.split)

lemma send_result:
  "fst (send e self m l b) =
     (case post e (request_of e self m) of
        Inl f \<Rightarrow> Inl (TransportError f)
      | Inr d \<Rightarrow> if b then Inr d
                else (case check_response_for_error d l of Inl err \<Rightarrow> Inl err | Inr _ \<Rightarrow> Inr d))"
  unfolding send_def Let_def request_of_def by (simp split: sum.splits)

lemma create_eq:
  "create e self fresh thing data =
     (let message = RequestMessage fresh CREATE
            [(''collection'', create_collection thing), (''data'', data)];
          self = self\<lparr>self_id := msg_id message\<rparr>;
          (response, wire) = send e self message ''create'' False
      in case response of
           Inl err \<Rightarrow> (Inl err, self, wire)
         | Inr response \<Rightarrow> (checked_result response ''create'', self, wire))"
proof (cases thing)
  case (VStr s)
  show ?thesis
  proof (cases "CHR '':'' \<in> set s")
    case True
    then obtain a b rest where "split_str CHR '':'' s = a # b # rest"
      using split_str_colon by blast
    with VStr True show ?thesis
      by (simp add: create_def create_collection_def)
  next
    case False
    with VStr show ?thesis
      by (simp add: create_def create_collection_def)
  qed
qed (simp_all add: create_def create_collection_def)

section \<open>Each operation: its request, its connection, its check\<close>

lemma authenticate_wire:
  "wire_of (authenticate e self fresh t) =
     [request_of e (self\<lparr>token := VStr t, self_id := fresh\<rparr>) (RequestMessage fresh AUTHENTICATE [(''token'', VStr t)])]"
  unfolding authenticate_def by (simp add: Let_def split_beta send_wire split: sum.split)

lemma authenticate_fail:
  "result_of (authenticate e self fresh t) = Inl err \<Longrightarrow>
   conn_of (authenticate e self fresh t) = (self\<lparr>token := VStr t, self_id := fresh\<rparr>)"
  unfolding authenticate_def by (simp add: Let_def split_beta split: sum.splits)

lemma authenticate_id:
  "self_id (conn_of (authenticate e self fresh t)) = fresh"
  unfolding authenticate_def by (simp add: Let_def split_beta split: sum.split)

lemma authenticate_checks:
  "post e (request_of e (self\<lparr>token := VStr t, self_id := fresh\<rparr>) (RequestMessage fresh AUTHENTICATE [(''token'', VStr t)])) = Inr payload \<Longrightarrow>
   check_response_for_error payload ''authenticating'' = Inl err \<Longrightarrow>
   result_of (authenticate e self fresh t) = Inl err"
  unfolding authenticate_def by (simp add: Let_def split_beta send_result)

lemma authenticate_dispatched:
  "dispatched fresh AUTHENTICATE (authenticate e self fresh t)"
  by (simp add: dispatched_def authenticate_wire authenticate_id request_of_def)

lemma authenticate_validated:
  "validated e ''authenticating'' (authenticate e self fresh t)"
  using authenticate_checks [where e = e and self = self and fresh = fresh and t = t]
  by (simp add: validated_def authenticate_wire split: sum.split)

lemma invalidate_wire:
  "wire_of (invalidate e self fresh) =
     [request_of e (self\<lparr>self_id := fresh\<rparr>) (RequestMessage fresh INVALIDATE [])]"
  unfolding invalidate_def by (simp add: Let_def split_beta send_wire split: sum.split)

lemma invalidate_fail:
  "result_of (invalidate e self fresh) = Inl err \<Longrightarrow>
   conn_of (invalidate e self fresh) = (self\<lparr>self_id := fresh\<rparr>)"
  unfolding invalidate_def by (simp add: Let_def split_beta split: sum.splits)

lemma invalidate_id:
  "self_id (conn_of (invalidate e self fresh)) = fresh"
  unfolding invalidate_def by (simp add: Let_def split_beta split: sum.split)

lemma invalidate_checks:
  "post e (request_of e (self\<lparr>self_id := fresh\<rparr>) (RequestMessage fresh INVALIDATE [])) = Inr payload \<Longrightarrow>
   check_response_for_error payload ''invalidating'' = Inl err \<Longrightarrow>
   result_of (invalidate e self fresh) = Inl err"
  unfolding invalidate_def by (simp add: Let_def split_beta send_result)

lemma invalidate_dispatched:
  "dispatched fresh INVALIDATE (invalidate e self fresh)"
  by (simp add: dispatched_def invalidate_wire invalidate_id request_of_def)

lemma invalidate_validated:
  "validated e ''invalidating'' (invalidate e self fresh)"
  using invalidate_checks [where e = e and self = self and fresh = fresh]
  by (simp add: validated_def invalidate_wire split: sum.split)

lemma signup_wire:
  "wire_of (signup e self fresh vs) =
     [request_of e (self\<lparr>self_id := fresh\<rparr>) (RequestMessage fresh SIGN_UP [(''data'', VDict vs)])]"
  unfolding signup_def by (simp add: Let_def split_beta send_wire split: sum.split)

lemma signup_fail:
  "result_of (signup e self fresh vs) = Inl err \<Longrightarrow>
   conn_of (signup e self fresh vs) = (self\<lparr>self_id := fresh\<rparr>)"
  unfolding signup_def by (simp add: Let_def split_beta split: sum.splits)

lemma signup_id:
  "self_id (conn_of (signup e self fresh vs)) = fresh"
  unfolding signup_def by (simp add: Let_def split_beta split: sum.split)

lemma signup_checks:
  "post e (request_of e (self\<lparr>self_id := fresh\<rparr>) (RequestMessage fresh SIGN_UP [(''data'', VDict vs)])) = Inr payload \<Longrightarrow>
   check_response_for_error payload ''signup'' = Inl err \<Longrightarrow>
   result_of (signup e self fresh vs) = Inl err"
  unfolding signup_def by (simp add: Let_def split_beta send_result)

lemma signup_dispatched:
  "dispatched fresh SIGN_UP (signup e self fresh vs)"
  by (simp add: dispatched_def signup_wire signup_id request_of_def)

lemma signup_validated:
  "validated e ''signup'' (signup e self fresh vs)"
  using signup_checks [where e = e and self = self and fresh = fresh and vs = vs]
  by (simp add: validated_def signup_wire split: sum.split)

lemma signin_wire:
  "wire_of (signin e self fresh vs) =
     [request_of e (self\<lparr>self_id := fresh\<rparr>) (RequestMessage fresh SIGN_IN [(''username'', dict_get vs ''username''), (''password'', dict_get vs ''password''), (''access'', dict_get vs ''access''), (''database'', dict_get vs ''database''), (''namespace'', dict_get vs ''namespace''), (''variables'', dict_get vs ''variables'')])]"
  unfolding signin_def by (simp add: Let_def split_beta send_wire split: sum.split)

lemma signin_fail:
  "result_of (signin e self fresh vs) = Inl err \<Longrightarrow>
   conn_of (signin e self fresh vs) = (self\<lparr>self_id := fresh\<rparr>)"
  unfolding signin_def by (simp add: Let_def split_beta split: sum.splits)

lemma signin_id:
  "self_id (conn_of (signin e self fresh vs)) = fresh"
  unfolding signin_def by (simp add: Let_def split_beta split: sum.split)

lemma signin_checks:
  "post e (request_of e (self\<lparr>self_id := fresh\<rparr>) (RequestMessage fresh SIGN_IN [(''username'', dict_get vs ''username''), (''password'', dict_get vs ''password''), (''access'', dict_get vs ''access''), (''database'', dict_get vs ''database''), (''namespace'', dict_get vs ''namespace''), (''variables'', dict_get vs ''variables'')])) = Inr payload \<Longrightarrow>
   check_response_for_error payload ''signing in'' = Inl err \<Longrightarrow>
   result_of (signin e self fresh vs) = Inl err"
  unfolding signin_def by (simp add: Let_def split_beta send_result)

lemma signin_dispatched:
  "dispatched fresh SIGN_IN (signin e self fresh vs)"
  by (simp add: dispatched_def signin_wire signin_id request_of_def)

lemma signin_validated:
  "validated e ''signing in'' (signin e self fresh vs)"
  using signin_checks [where e = e and self = self and fresh = fresh and vs = vs]
  by (simp add: validated_def signin_wire split: sum.split)

lemma info_wire:
  "wire_of (info e self fresh) =
     [request_of e (self\<lparr>self_id := fresh\<rparr>) (RequestMessage fresh INFO [])]"
  unfolding info_def by (simp add: Let_def split_beta send_wire split: sum.split)

lemma info_fail:
  "result_of (info e self fresh) = Inl err \<Longrightarrow>
   conn_of (info e self fresh) = (self\<lparr>self_id := fresh\<rparr>)"
  unfolding info_def by (simp add: Let_def split_beta split: sum.splits)

lemma info_frame:
  "conn_of (info e self fresh) = (self\<lparr>self_id := fresh\<rparr>)"
  unfolding info_def by (simp add: Let_def split_beta split: sum.split)

lemma info_id:
  "self_id (conn_of (info e self fresh)) = fresh"
  unfolding info_def by (simp add: Let_def split_beta split: sum.split)

lemma info_checks:
  "post e (request_of e (self\<lparr>self_id := fresh\<rparr>) (RequestMessage fresh INFO [])) = Inr payload \<Longrightarrow>
   check_response_for_error payload ''getting database information'' = Inl err \<Longrightarrow>
   result_of (info e self fresh) = Inl err"
  unfolding info_def by (simp add: Let_def split_beta send_result)

lemma info_dispatched:
  "dispatched fresh INFO (info e self fresh)"
  by (simp add: dispatched_def info_wire info_id request_of_def)

lemma info_validated:
  "validated e ''getting database information'' (info e self fresh)"
  using info_checks [where e = e and self = self and fresh = fresh]
  by (simp add: validated_def info_wire split: sum.split)

lemma use_wire:
  "wire_of (use e self fresh ns db) =
     [request_of e (self\<lparr>self_id := fresh\<rparr>) (RequestMessage fresh USE [(''namespace'', VStr ns), (''database'', VStr db)])]"
  unfolding use_def by (simp add: Let_def split_beta send_wire split: sum.split)

lemma use_fail:
  "result_of (use e self fresh ns db) = Inl err \<Longrightarrow>
   conn_of (use e self fresh ns db) = (self\<lparr>self_id := fresh\<rparr>)"
  unfolding use_def by (simp add: Let_def split_beta split: sum.splits)

lemma use_id:
  "self_id (conn_of (use e self fresh ns db)) = fresh"
  unfolding use_def by (simp add: Let_def split_beta split: sum.split)

lemma use_checks:
  "post e (request_of e (self\<lparr>self_id := fresh\<rparr>) (RequestMessage fresh USE [(''namespace'', VStr ns), (''database'', VStr db)])) = Inr payload \<Longrightarrow>
   check_response_for_error payload ''use'' = Inl err \<Longrightarrow>
   result_of (use e self fresh ns db) = Inl err"
  unfolding use_def by (simp add: Let_def split_beta send_result)

lemma use_dispatched:
  "dispatched fresh USE (use e self fresh ns db)"
  by (simp add: dispatched_def use_wire use_id request_of_def)

lemma use_validated:
  "validated e ''use'' (use e self fresh ns db)"
  using use_checks [where e = e and self = self and fresh = fresh and ns = ns and db = db]
  by (simp add: validated_def use_wire split: sum.split)

lemma query_wire:
  "wire_of (fst (query e self fresh q p)) =
     [request_of e (self\<lparr>self_id := fresh\<rparr>) (RequestMessage fresh QUERY [(''query'', VStr q), (''params'', VDict (write_vars (vars self) (case p of None \<Rightarrow> [] | Some d \<Rightarrow> d)))])]"
  unfolding query_def by (simp add: Let_def split_beta send_wire split: sum.split)

lemma query_fail:
  "result_of (fst (query e self fresh q p)) = Inl err \<Longrightarrow>
   conn_of (fst (query e self fresh q p)) = (self\<lparr>self_id := fresh\<rparr>)"
  unfolding query_def by (simp add: Let_def split_beta split: sum.splits)

lemma query_frame:
  "conn_of (fst (query e self fresh q p)) = (self\<lparr>self_id := fresh\<rparr>)"
  unfolding query_def by (simp add: Let_def split_beta split: sum.split)

lemma query_id:
  "self_id (conn_of (fst (query e self fresh q p))) = fresh"
  unfolding query_def by (simp add: Let_def split_beta split: sum.split)

lemma query_checks:
  "post e (request_of e (self\<lparr>self_id := fresh\<rparr>) (RequestMessage fresh QUERY [(''query'', VStr q), (''params'', VDict (write_vars (vars self) (case p of None \<Rightarrow> [] | Some d \<Rightarrow> d)))])) = Inr payload \<Longrightarrow>
   check_response_for_error payload ''query'' = Inl err \<Longrightarrow>
   result_of (fst (query e self fresh q p)) = Inl err"
  unfolding query_def by (simp add: Let_def split_beta send_result)

lemma query_dispatched:
  "dispatched fresh QUERY (fst (query e self fresh q p))"
  by (simp add: dispatched_def query_wire query_id request_of_def)

lemma query_validated:
  "validated e ''query'' (fst (query e self fresh q p))"
  using query_checks [where e = e and self = self and fresh = fresh and q = q and p = p]
  by (simp add: validated_def query_wire split: sum.split)

lemma query_raw_wire:
  "wire_of (fst (query_raw e self fresh q p)) =
     [request_of e (self\<lparr>self_id := fresh\<rparr>) (RequestMessage fresh QUERY [(''query'', VStr q), (''params'', VDict (write_vars (vars self) (case p of None \<Rightarrow> [] | Some d \<Rightarrow> d)))])]"
  unfolding query_raw_def by (simp add: Let_def split_beta send_wire split: sum.split)

lemma query_raw_fail:
  "result_of (fst (query_raw e self fresh q p)) = Inl err \<Longrightarrow>
   conn_of (fst (query_raw e self fresh q p)) = (self\<lparr>self_id := fresh\<rparr>)"
  unfolding query_raw_def by (simp add: Let_def split_beta split: sum.splits)

lemma query_raw_frame:
  "conn_of (fst (query_raw e self fresh q p)) = (self\<lparr>self_id := fresh\<rparr>)"
  unfolding query_raw_def by (simp add: Let_def split_beta split: sum.split)

lemma query_raw_id:
  "self_id (conn_of (fst (query_raw e self fresh q p))) = fresh"
  unfolding query_raw_def by (simp add: Let_def split_beta split: sum.split)

lemma query_raw_dispatched:
  "dispatched fresh QUERY (fst (query_raw e self fresh q p))"
  by (simp add: dispatched_def query_raw_wire query_raw_id request_of_def)

lemma create_wire:
  "wire_of (create e self fresh thing data) =
     [request_of e (self\<lparr>self_id := fresh\<rparr>) (RequestMessage fresh CREATE [(''collection'', create_collection thing), (''data'', data)])]"
  unfolding create_eq by (simp add: Let_def split_beta send_wire split: sum.split)

lemma create_fail:
  "result_of (create e self fresh thing data) = Inl err \<Longrightarrow>
   conn_of (create e self fresh thing data) = (self\<lparr>self_id := fresh\<rparr>)"
  unfolding create_eq by (simp add: Let_def split_beta split: sum.splits)

lemma create_frame:
  "conn_of (create e self fresh thing data) = (self\<lparr>self_id := fresh\<rparr>)"
  unfolding create_eq by (simp add: Let_def split_beta split: sum.split)

lemma create_id:
  "self_id (conn_of (create e self fresh thing data)) = fresh"
  unfolding create_eq by (simp add: Let_def split_beta split: sum.split)

lemma create_checks:
  "post e (request_of e (self\<lparr>self_id := fresh\<rparr>) (RequestMessage fresh CREATE [(''collection'', create_collection thing), (''data'', data)])) = Inr payload \<Longrightarrow>
   check_response_for_error payload ''create'' = Inl err \<Longrightarrow>
   result_of (create e self fresh thing data) = Inl err"
  unfolding create_eq by (simp add: Let_def split_beta send_result)

lemma create_dispatched:
  "dispatched fresh CREATE (create e self fresh thing data)"
  by (simp add: dispatched_def create_wire create_id request_of_def)

lemma create_validated:
  "validated e ''create'' (create e self fresh thing data)"
  using create_checks [where e = e and self = self and fresh = fresh and thing = thing and data = data]
  by (simp add: validated_def create_wire split: sum.split)

lemma delete_wire:
  "wire_of (delete e self fresh thing) =
     [request_of e (self\<lparr>self_id := fresh\<rparr>) (RequestMessage fresh DELETE [(''record_id'', thing)])]"
  unfolding delete_def by (simp add: Let_def split_beta send_wire split: sum.split)

lemma delete_fail:
  "result_of (delete e self fresh thing) = Inl err \<Longrightarrow>
   conn_of (delete e self fresh thing) = (self\<lparr>self_id := fresh\<rparr>)"
  unfolding delete_def by (simp add: Let_def split_beta split: sum.splits)

lemma delete_frame:
  "conn_of (delete e self fresh thing) = (self\<lparr>self_id := fresh\<rparr>)"
  unfolding delete_def by (simp add: Let_def split_beta split: sum.split)

lemma delete_id:
  "self_id (conn_of (delete e self fresh thing)) = fresh"
  unfolding delete_def by (simp add: Let_def split_beta split: sum.split)

lemma delete_checks:
  "post e (request_of e (self\<lparr>self_id := fresh\<rparr>) (RequestMessage fresh DELETE [(''record_id'', thing)])) = Inr payload \<Longrightarrow>
   check_response_for_error payload ''delete'' = Inl err \<Longrightarrow>
   result_of (delete e self fresh thing) = Inl err"
  unfolding delete_def by (simp add: Let_def split_beta send_result)

lemma delete_dispatched:
  "dispatched fresh DELETE (delete e self fresh thing)"
  by (simp add: dispatched_def delete_wire delete_id request_of_def)

lemma delete_validated:
  "validated e ''delete'' (delete e self fresh thing)"
  using delete_checks [where e = e and self = self and fresh = fresh and thing = thing]
  by (simp add: validated_def delete_wire split: sum.split)

lemma insert_op_wire:
  "wire_of (insert_op e self fresh table data) =
     [request_of e (self\<lparr>self_id := fresh\<rparr>) (RequestMessage fresh INSERT [(''collection'', table), (''params'', data)])]"
  unfolding insert_op_def by (simp add: Let_def split_beta send_wire split: sum.split)

lemma insert_op_fail:
  "result_of (insert_op e self fresh table data) = Inl err \<Longrightarrow>
   conn_of (insert_op e self fresh table data) = (self\<lparr>self_id := fresh\<rparr>)"
  unfolding insert_op_def by (simp add: Let_def split_beta split: sum.splits)

lemma insert_op_frame:
  "conn_of (insert_op e self fresh table data) = (self\<lparr>self_id := fresh\<rparr>)"
  unfolding insert_op_def by (simp add: Let_def split_beta split: sum.split)

lemma insert_op_id:
  "self_id (conn_of (insert_op e self fresh table data)) = fresh"
  unfolding insert_op_def by (simp add: Let_def split_beta split: sum.split)

lemma insert_op_checks:
  "post e (request_of e (self\<lparr>self_id := fresh\<rparr>) (RequestMessage fresh INSERT [(''collection'', table), (''params'', data)])) = Inr payload \<Longrightarrow>
   check_response_for_error payload ''insert'' = Inl err \<Longrightarrow>
   result_of (insert_op e self fresh table data) = Inl err"
  unfolding insert_op_def by (simp add: Let_def split_beta send_result)

lemma insert_op_dispatched:
  "dispatched fresh INSERT (insert_op e self fresh table data)"
  by (simp add: dispatched_def insert_op_wire insert_op_id request_of_def)

lemma insert_op_validated:
  "validated e ''insert'' (insert_op e self fresh table data)"
  using insert_op_checks [where e = e and self = self and fresh = fresh and table = table and data = data]
  by (simp add: validated_def insert_op_wire split: sum.split)

lemma insert_relation_wire:
  "wire_of (insert_relation e self fresh table data) =
     [request_of e (self\<lparr>self_id := fresh\<rparr>) (RequestMessage fresh INSERT_RELATION [(''table'', table), (''params'', data)])]"
  unfolding insert_relation_def by (simp add: Let_def split_beta send_wire split: sum.split)

lemma insert_relation_fail:
  "result_of (insert_relation e self fresh table data) = Inl err \<Longrightarrow>
   conn_of (insert_relation e self fresh table data) = (self\<lparr>self_id := fresh\<rparr>)"
  unfolding insert_relation_def by (simp add: Let_def split_beta split: sum.splits)

lemma insert_relation_frame:
  "conn_of (insert_relation e self fresh table data) = (self\<lparr>self_id := fresh\<rparr>)"
  unfolding insert_relation_def by (simp add: Let_def split_beta split: sum.split)

lemma insert_relation_id:
  "self_id (conn_of (insert_relation e self fresh table data)) = fresh"
  unfolding insert_relation_def by (simp add: Let_def split_beta split: sum.split)

lemma insert_relation_checks:
  "post e (request_of e (self\<lparr>self_id := fresh\<rparr>) (RequestMessage fresh INSERT_RELATION [(''table'', table), (''params'', data)])) = Inr payload \<Longrightarrow>
   check_response_for_error payload ''insert_relation'' = Inl err \<Longrightarrow>
   result_of (insert_relation e self fresh table data) = Inl err"
  unfolding insert_relation_def by (simp add: Let_def split_beta send_result)

lemma insert_relation_dispatched:
  "dispatched fresh INSERT_RELATION (insert_relation e self fresh table data)"
  by (simp add: dispatched_def insert_relation_wire insert_relation_id request_of_def)

lemma insert_relation_validated:
  "validated e ''insert_relation'' (insert_relation e self fresh table data)"
  using insert_relation_checks [where e = e and self = self and fresh = fresh and table = table and data = data]
  by (simp add: validated_def insert_relation_wire split: sum.split)

lemma merge_wire:
  "wire_of (merge e self fresh thing data) =
     [request_of e (self\<lparr>self_id := fresh\<rparr>) (RequestMessage fresh MERGE [(''record_id'', thing), (''data'', data)])]"
  unfolding merge_def by (simp add: Let_def split_beta send_wire split: sum.split)

lemma merge_fail:
  "result_of (merge e self fresh thing data) = Inl err \<Longrightarrow>
   conn_of (merge e self fresh thing data) = (self\<lparr>self_id := fresh\<rparr>)"
  unfolding merge_def by (simp add: Let_def split_beta split: sum.splits)

lemma merge_frame:
  "conn_of (merge e self fresh thing data) = (self\<lparr>self_id := fresh\<rparr>)"
  unfolding merge_def by (simp add: Let_def split_beta split: sum.split)

lemma merge_id:
  "self_id (conn_of (merge e self fresh thing data)) = fresh"
  unfolding merge_def by (simp add: Let_def split_beta split: sum.split)

lemma merge_checks:
  "post e (request_of e (self\<lparr>self_id := fresh\<rparr>) (RequestMessage fresh MERGE [(''record_id'', thing), (''data'', data)])) = Inr payload \<Longrightarrow>
   check_response_for_error payload ''merge'' = Inl err \<Longrightarrow>
   result_of (merge e self fresh thing data) = Inl err"
  unfolding merge_def by (simp add: Let_def split_beta send_result)

lemma merge_dispatched:
  "dispatched fresh MERGE (merge e self fresh thing data)"
  by (simp add: dispatched_def merge_wire merge_id request_of_def)

lemma merge_validated:
  "validated e ''merge'' (merge e self fresh thing data)"
  using merge_checks [where e = e and self = self and fresh = fresh and thing = thing and data = data]
  by (simp add: validated_def merge_wire split: sum.split)

lemma patch_wire:
  "wire_of (patch e self fresh thing data) =
     [request_of e (self\<lparr>self_id := fresh\<rparr>) (RequestMessage fresh PATCH [(''collection'', thing), (''params'', data)])]"
  unfolding patch_def by (simp add: Let_def split_beta send_wire split: sum.split)

lemma patch_fail:
  "result_of (patch e self fresh thing data) = Inl err \<Longrightarrow>
   conn_of (patch e self fresh thing data) = (self\<lparr>self_id := fresh\<rparr>)"
  unfolding patch_def by (simp add: Let_def split_beta split: sum.splits)

lemma patch_frame:
  "conn_of (patch e self fresh thing data) = (self\<lparr>self_id := fresh\<rparr>)"
  unfolding patch_def by (simp add: Let_def split_beta split: sum.split)

lemma patch_id:
  "self_id (conn_of (patch e self fresh thing data)) = fresh"
  unfolding patch_def by (simp add: Let_def split_beta split: sum.split)

lemma patch_checks:
  "post e (request_of e (self\<lparr>self_id := fresh\<rparr>) (RequestMessage fresh PATCH [(''collection'', thing), (''params'', data)])) = Inr payload \<Longrightarrow>
   check_response_for_error payload ''patch'' = Inl err \<Longrightarrow>
   result_of (patch e self fresh thing data) = Inl err"
  unfolding patch_def by (simp add: Let_def split_beta send_result)

lemma patch_dispatched:
  "dispatched fresh PATCH (patch e self fresh thing data)"
  by (simp add: dispatched_def patch_wire patch_id request_of_def)

lemma patch_validated:
  "validated e ''patch'' (patch e self fresh thing data)"
  using patch_checks [where e = e and self = self and fresh = fresh and thing = thing and data = data]
  by (simp add: validated_def patch_wire split: sum.split)

lemma select_wire:
  "wire_of (select e self fresh thing) =
     [request_of e (self\<lparr>self_id := fresh\<rparr>) (RequestMessage fresh SELECT [(''params'', VList [thing])])]"
  unfolding select_def by (simp add: Let_def split_beta send_wire split: sum.split)

lemma select_fail:
  "result_of (select e self fresh thing) = Inl err \<Longrightarrow>
   conn_of (select e self fresh thing) = (self\<lparr>self_id := fresh\<rparr>)"
  unfolding select_def by (simp add: Let_def split_beta split: sum.splits)

lemma select_frame:
  "conn_of (select e self fresh thing) = (self\<lparr>self_id := fresh\<rparr>)"
  unfolding select_def by (simp add: Let_def split_beta split: sum.split)

lemma select_id:
  "self_id (conn_of (select e self fresh thing)) = fresh"
  unfolding select_def by (simp add: Let_def split_beta split: sum.split)

lemma select_checks:
  "post e (request_of e (self\<lparr>self_id := fresh\<rparr>) (RequestMessage fresh SELECT [(''params'', VList [thing])])) = Inr payload \<Longrightarrow>
   check_response_for_error payload ''select'' = Inl err \<Longrightarrow>
   result_of (select e self fresh thing) = Inl err"
  unfolding select_def by (simp add: Let_def split_beta send_result)

lemma select_dispatched:
  "dispatched fresh SELECT (select e self fresh thing)"
  by (simp add: dispatched_def select_wire select_id request_of_def)

lemma select_validated:
  "validated e ''select'' (select e self fresh thing)"
  using select_checks [where e = e and self = self and fresh = fresh and thing = thing]
  by (simp add: validated_def select_wire split: sum.split)

lemma update_wire:
  "wire_of (update e self fresh thing data) =
     [request_of e (self\<lparr>self_id := fresh\<rparr>) (RequestMessage fresh UPDATE [(''record_id'', thing), (''data'', data)])]"
  unfolding update_def by (simp add: Let_def split_beta send_wire split: sum.split)

lemma update_fail:
  "result_of (update e self fresh thing data) = Inl err \<Longrightarrow>
   conn_of (update e self fresh thing data) = (self\<lparr>self_id := fresh\<rparr>)"
  unfolding update_def by (simp add: Let_def split_beta split: sum.splits)

lemma update_frame:
  "conn_of (update e self fresh thing data) = (self\<lparr>self_id := fresh\<rparr>)"
  unfolding update_def by (simp add: Let_def split_beta split: sum.split)

lemma update_id:
  "self_id (conn_of (update e self fresh thing data)) = fresh"
  unfolding update_def by (simp add: Let_def split_beta split: sum.split)

lemma update_checks:
  "post e (request_of e (self\<lparr>self_id := fresh\<rparr>) (RequestMessage fresh UPDATE [(''record_id'', thing), (''data'', data)])) = Inr payload \<Longrightarrow>
   check_response_for_error payload ''update'' = Inl err \<Longrightarrow>
   result_of (update e self fresh thing data) = Inl err"
  unfolding update_def by (simp add: Let_def split_beta send_result)

lemma update_dispatched:
  "dispatched fresh UPDATE (update e self fresh thing data)"
  by (simp add: dispatched_def update_wire update_id request_of_def)

lemma update_validated:
  "validated e ''update'' (update e self fresh thing data)"
  using update_checks [where e = e and self = self and fresh = fresh and thing = thing and data = data]
  by (simp add: validated_def update_wire split: sum.split)

lemma version_wire:
  "wire_of (version e self fresh) =
     [request_of e (self\<lparr>self_id := fresh\<rparr>) (RequestMessage fresh VERSION [])]"
  unfolding version_def by (simp add: Let_def split_beta send_wire split: sum.split)

lemma version_fail:
  "result_of (version e self fresh) = Inl err \<Longrightarrow>
   conn_of (version e self fresh) = (self\<lparr>self_id := fresh\<rparr>)"
  unfolding version_def by (simp add: Let_def split_beta split: sum.splits)

lemma version_frame:
  "conn_of (version e self fresh) = (self\<lparr>self_id := fresh\<rparr>)"
  unfolding version_def by (simp add: Let_def split_beta split: sum.split)

lemma version_id:
  "self_id (conn_of (version e self fresh)) = fresh"
  unfolding version_def by (simp add: Let_def split_beta split: sum.split)

lemma version_checks:
  "post e (request_of e (self\<lparr>self_id := fresh\<rparr>) (RequestMessage fresh VERSION [])) = Inr payload \<Longrightarrow>
   check_response_for_error payload ''getting database version'' = Inl err \<Longrightarrow>
   result_of (version e self fresh) = Inl err"
  unfolding version_def by (simp add: Let_def split_beta send_result)

lemma version_dispatched:
  "dispatched fresh VERSION (version e self fresh)"
  by (simp add: dispatched_def version_wire version_id request_of_def)

lemma version_validated:
  "validated e ''getting database version'' (version e self fresh)"
  using version_checks [where e = e and self = self and fresh = fresh]
  by (simp add: validated_def version_wire split: sum.split)

lemma upsert_wire:
  "wire_of (upsert e self fresh thing data) =
     [request_of e (self\<lparr>self_id := fresh\<rparr>) (RequestMessage fresh UPSERT [(''record_id'', thing), (''data'', data)])]"
  unfolding upsert_def by (simp add: Let_def split_beta send_wire split: sum.split)

lemma upsert_fail:
  "result_of (upsert e self fresh thing data) = Inl err \<Longrightarrow>
   conn_of (upsert e self fresh thing data) = (self\<lparr>self_id := fresh\<rparr>)"
  unfolding upsert_def by (simp add: Let_def split_beta split: sum.splits)

lemma upsert_frame:
  "conn_of (upsert e self fresh thing data) = (self\<lparr>self_id := fresh\<rparr>)"
  unfolding upsert_def by (simp add: Let_def split_beta split: sum.split)

lemma upsert_id:
  "self_id (conn_of (upsert e self fresh thing data)) = fresh"
  unfolding upsert_def by (simp add: Let_def split_beta split: sum.split)

lemma upsert_checks:
  "post e (request_of e (self\<lparr>self_id := fresh\<rparr>) (RequestMessage fresh UPSERT [(''record_id'', thing), (''data'', data)])) = Inr payload \<Longrightarrow>
   check_response_for_error payload ''upsert'' = Inl err \<Longrightarrow>
   result_of (upsert e self fresh thing data) = Inl err"
  unfolding upsert_def by (simp add: Let_def split_beta send_result)

lemma upsert_dispatched:
  "dispatched fresh UPSERT (upsert e self fresh thing data)"
  by (simp add: dispatched_def upsert_wire upsert_id request_of_def)

lemma upsert_validated:
  "validated e ''upsert'' (upsert e self fresh thing data)"
  using upsert_checks [where e = e and self = self and fresh = fresh and thing = thing and data = data]
  by (simp add: validated_def upsert_wire split: sum.split)

section \<open>Further auxiliary facts\<close>

text \<open>
  The connection's variables stay a dictionary: \<^verbatim>\<open>__init__\<close> starts with none,
  \<^verbatim>\<open>let\<close> and \<^verbatim>\<open>unset\<close> keep the keys distinct.
\<close>

lemma init_vars_distinct: "distinct (map fst (vars (init parse uuid u)))"
  by (simp add: init_def)

lemma let_op_vars_distinct:
  "distinct (map fst (vars self)) \<Longrightarrow> distinct (map fst (vars (conn_of (let_op self key val))))"
  by (simp add: let_op_def AList.distinct_update)

lemma unset_vars_distinct:
  "distinct (map fst (vars self)) \<Longrightarrow> distinct (map fst (vars (conn_of (unset self key))))"
  by (simp add: unset_def AList.distinct_delete split: option.split)

text \<open>The caller's mapping after \<^verbatim>\<open>query\<close> and \<^verbatim>\<open>query_raw\<close>.\<close>

lemma query_mapping: "snd (query e self fresh q p) = write_vars (vars self) (case p of None \<Rightarrow> [] | Some d \<Rightarrow> d)"
  unfolding query_def by (simp add: Let_def split_beta split: sum.split)

lemma query_raw_mapping: "snd (query_raw e self fresh q p) = write_vars (vars self) (case p of None \<Rightarrow> [] | Some d \<Rightarrow> d)"
  unfolding query_raw_def by (simp add: Let_def split_beta)

text \<open>The two session headers, read off the header lines of \<^verbatim>\<open>_send\<close>.\<close>

lemma send_headers_namespace:
  "map_of (send_headers e self) ''Surreal-NS'' =
     (case namespace self of None \<Rightarrow> None | Some ns \<Rightarrow> if ns = [] then None else Some ns)"
  unfolding send_headers_def Let_def
  by (simp add: AList.update_conv' split: option.split)

lemma send_headers_database:
  "map_of (send_headers e self) ''Surreal-DB'' =
     (case database self of None \<Rightarrow> None | Some db \<Rightarrow> if db = [] then None else Some db)"
  unfolding send_headers_def Let_def
  by (simp add: AList.update_conv' split: option.split)

section \<open>The claims\<close>

subsection \<open>C1: bound variables override call-site parameters\<close>

text \<open>
  C1. For every call \<^verbatim>\<open>query(q, p)\<close> on a connection whose bound variables map
  \<open>k\<close> to \<open>v\<close>, the one request the call puts on the wire carries an envelope whose
  \<^verbatim>\<open>params\<close> mapping maps \<open>k\<close> to \<open>v\<close>, whatever the caller's mapping \<open>p\<close>
  binds \<open>k\<close> to: the bound variables are written after the call-site parameters.
  The connection's variables are a Python dictionary, so their keys are distinct.
\<close>

theorem query_bound_variables_override:
  assumes "distinct (map fst (vars self))"
    and "map_of (vars self) k = Some v"
  shows "\<exists>r ps. wire_of (fst (query e self fresh q p)) = [r]
           \<and> map_of (kwargs (req_data r)) ''params'' = Some (VDict ps)
           \<and> map_of ps k = Some v"
proof -
  let ?ps = "write_vars (vars self) (case p of None \<Rightarrow> [] | Some d \<Rightarrow> d)"
  let ?r = "request_of e (self\<lparr>self_id := fresh\<rparr>)
              (RequestMessage fresh QUERY [(''query'', VStr q), (''params'', VDict ?ps)])"
  have w: "wire_of (fst (query e self fresh q p)) = [?r]"
    by (rule query_wire)
  have p: "map_of (kwargs (req_data ?r)) ''params'' = Some (VDict ?ps)"
    by (simp add: request_of_def)
  have l: "map_of ?ps k = Some v"
    using assms by (simp add: write_vars_lookup)
  from w p l show ?thesis by blast
qed

text \<open>
  C1, at the example of the specification: \<^verbatim>\<open>let("x", 1)\<close>, then
  \<^verbatim>\<open>query("RETURN $x", {"x": 2})\<close> transmits 1 for \<^verbatim>\<open>x\<close>.
\<close>

theorem query_bound_variables_override_witness:
  "distinct (map fst (vars (conn_of (let_op c0 ''x'' (VInt 1)))))
   \<and> map_of (vars (conn_of (let_op c0 ''x'' (VInt 1)))) ''x'' = Some (VInt 1)
   \<and> (\<exists>r ps. wire_of (fst (query world_down (conn_of (let_op c0 ''x'' (VInt 1))) ''uuid-1''
                    ''RETURN $x'' (Some [(''x'', VInt 2)]))) = [r]
         \<and> map_of (kwargs (req_data r)) ''params'' = Some (VDict ps)
         \<and> map_of ps ''x'' = Some (VInt 1))"
proof -
  have d: "distinct (map fst (vars (conn_of (let_op c0 ''x'' (VInt 1)))))"
    by (simp add: let_op_def c0_def init_def)
  have b: "map_of (vars (conn_of (let_op c0 ''x'' (VInt 1)))) ''x'' = Some (VInt 1)"
    by (simp add: let_op_def c0_def init_def)
  show ?thesis
    using d b query_bound_variables_override [OF d b] by blast
qed

subsection \<open>C2: where a string with a colon becomes a record reference\<close>

text \<open>
  C2 says that \<^verbatim>\<open>delete("person:1")\<close> builds a record reference with table
  \<^verbatim>\<open>person\<close> and identifier \<^verbatim>\<open>1\<close> before it builds the envelope. It does
  not: the envelope of \<^verbatim>\<open>delete("person:1")\<close> holds the string
  \<^verbatim>\<open>"person:1"\<close> as \<^verbatim>\<open>record_id\<close>.
\<close>

theorem delete_builds_no_record_reference:
  "wire_of (delete world_down c0 ''uuid-1'' (VStr ''person:1'')) =
     [\<lparr>req_url = ''http://localhost:8000/rpc'',
       req_headers = [(''Accept'', ''application/cbor''), (''Content-Type'', ''application/cbor'')],
       req_data = \<lparr>msg_id = ''uuid-1'', msg_method = DELETE,
                    kwargs = [(''record_id'', VStr ''person:1'')]\<rparr>,
       req_timeout = 30\<rparr>]
   \<and> VStr ''person:1'' \<noteq> VRecordID ''person'' (VStr ''1'')"
  by (simp add: delete_wire request_of_def RequestMessage_def send_headers_def c0_def init_def
      sample_parse_def world_down_def)

text \<open>
  C2, as the code has it. \<^verbatim>\<open>delete\<close> hands its argument to the envelope as it
  came, with a colon or without; the string with a colon is turned into a record
  reference by \<^verbatim>\<open>create\<close>: \<^verbatim>\<open>create("person:1")\<close> puts the reference with
  table \<^verbatim>\<open>person\<close> and identifier \<^verbatim>\<open>1\<close> into its envelope, and
  \<^verbatim>\<open>create("person")\<close> the bare name.
\<close>

theorem delete_passes_thing_unchanged:
  "wire_of (delete e self fresh thing) =
     [request_of e (self\<lparr>self_id := fresh\<rparr>) (RequestMessage fresh DELETE [(''record_id'', thing)])]
   \<and> wire_of (create e self fresh (VStr ''person:1'') data) =
     [request_of e (self\<lparr>self_id := fresh\<rparr>)
        (RequestMessage fresh CREATE [(''collection'', VRecordID ''person'' (VStr ''1'')), (''data'', data)])]
   \<and> wire_of (create e self fresh (VStr ''person'') data) =
     [request_of e (self\<lparr>self_id := fresh\<rparr>)
        (RequestMessage fresh CREATE [(''collection'', VStr ''person''), (''data'', data)])]"
  by (simp add: delete_wire create_wire create_collection_def)

subsection \<open>C3: a string with more than one colon\<close>

text \<open>
  C3 says that a string is split once, at its first colon, so that
  \<^verbatim>\<open>create("a:b:c")\<close> builds the reference with table \<^verbatim>\<open>a\<close> and identifier
  \<^verbatim>\<open>b:c\<close>. \<^verbatim>\<open>create\<close> splits at every colon and keeps the first two pieces:
  the envelope of \<^verbatim>\<open>create("a:b:c")\<close> holds table \<^verbatim>\<open>a\<close> and identifier
  \<^verbatim>\<open>b\<close>, and the rest of the identifier is lost.
\<close>

theorem create_keeps_only_second_piece:
  "wire_of (create world_down c0 ''uuid-1'' (VStr ''a:b:c'') VNone) =
     [\<lparr>req_url = ''http://localhost:8000/rpc'',
       req_headers = [(''Accept'', ''application/cbor''), (''Content-Type'', ''application/cbor'')],
       req_data = \<lparr>msg_id = ''uuid-1'', msg_method = CREATE,
                    kwargs = [(''collection'', VRecordID ''a'' (VStr ''b'')), (''data'', VNone)]\<rparr>,
       req_timeout = 30\<rparr>]
   \<and> VRecordID ''a'' (VStr ''b'') \<noteq> VRecordID ''a'' (VStr ''b:c'')"
  by (simp add: create_wire create_collection_def request_of_def RequestMessage_def
      send_headers_def c0_def init_def sample_parse_def world_down_def)

subsection \<open>C4: use sets namespace and database together or not at all\<close>

text \<open>
  C4. When \<^verbatim>\<open>use(ns, db)\<close> fails, the connection's namespace and database are
  both what they were before the call; when it succeeds, they are \<open>ns\<close> and \<open>db\<close>.
\<close>

theorem use_atomic:
  "(\<forall>err. result_of (use e self fresh ns db) = Inl err \<longrightarrow>
      namespace (conn_of (use e self fresh ns db)) = namespace self
      \<and> database (conn_of (use e self fresh ns db)) = database self)
   \<and> (result_of (use e self fresh ns db) = Inr () \<longrightarrow>
      namespace (conn_of (use e self fresh ns db)) = Some ns
      \<and> database (conn_of (use e self fresh ns db)) = Some db)"
  unfolding use_def by (simp add: Let_def split_beta split: sum.split)

text \<open>
  C4, at a successful \<^verbatim>\<open>use("ns1", "db1")\<close> followed by a
  \<^verbatim>\<open>use("ns2", "db2")\<close> that meets a server that is down.
\<close>

theorem use_atomic_witness:
  "result_of (use (world_reply payload_ok) c0 ''uuid-1'' ''ns1'' ''db1'') = Inr ()
   \<and> namespace (conn_of (use (world_reply payload_ok) c0 ''uuid-1'' ''ns1'' ''db1'')) = Some ''ns1''
   \<and> database (conn_of (use (world_reply payload_ok) c0 ''uuid-1'' ''ns1'' ''db1'')) = Some ''db1''
   \<and> result_of (use world_down (conn_of (use (world_reply payload_ok) c0 ''uuid-1'' ''ns1'' ''db1''))
         ''uuid-2'' ''ns2'' ''db2'') = Inl (TransportError ''503 Service Unavailable'')
   \<and> namespace (conn_of (use world_down (conn_of (use (world_reply payload_ok) c0 ''uuid-1'' ''ns1'' ''db1''))
         ''uuid-2'' ''ns2'' ''db2'')) = Some ''ns1''
   \<and> database (conn_of (use world_down (conn_of (use (world_reply payload_ok) c0 ''uuid-1'' ''ns1'' ''db1''))
         ''uuid-2'' ''ns2'' ''db2'')) = Some ''db1''"
proof -
  let ?c1 = "conn_of (use (world_reply payload_ok) c0 ''uuid-1'' ''ns1'' ''db1'')"
  have ok: "result_of (use (world_reply payload_ok) c0 ''uuid-1'' ''ns1'' ''db1'') = Inr ()"
    by (simp add: use_def Let_def split_beta send_result world_reply_def payload_ok_def
        check_response_for_error_def)
  have "result_of (use world_down c ''uuid-2'' ''ns2'' ''db2'')
          = Inl (TransportError ''503 Service Unavailable'')" for c
    by (simp add: use_def Let_def split_beta send_result world_down_def)
  then have down: "result_of (use world_down ?c1 ''uuid-2'' ''ns2'' ''db2'')
                = Inl (TransportError ''503 Service Unavailable'')" .
  show ?thesis
    using ok down
      use_atomic [of "world_reply payload_ok" c0 "''uuid-1''" "''ns1''" "''db1''"]
      use_atomic [of world_down ?c1 "''uuid-2''" "''ns2''" "''db2''"]
    by simp
qed

subsection \<open>C5: what a failed call leaves behind\<close>

text \<open>
  C5 says that a failed \<^verbatim>\<open>authenticate(token)\<close> leaves the stored token
  unchanged. \<^verbatim>\<open>authenticate\<close> stores the token before it sends, so that the
  request itself carries it: after a call that fails the stored token is the new one.
\<close>

theorem failed_authenticate_changes_token:
  "result_of (authenticate world_down c0 ''uuid-1'' ''tok'') = Inl (TransportError ''503 Service Unavailable'')
   \<and> token c0 = VNone
   \<and> token (conn_of (authenticate world_down c0 ''uuid-1'' ''tok'')) = VStr ''tok''"
  by (simp add: authenticate_def Let_def split_beta send_result world_down_def c0_def init_def)

text \<open>
  C5, as the code has it. After a failed call of any operation but
  \<^verbatim>\<open>authenticate\<close>, the connection is what it was before, except for the
  correlation id, which is that of the envelope just built; in particular a failed
  \<^verbatim>\<open>invalidate\<close>, \<^verbatim>\<open>signin\<close> or \<^verbatim>\<open>signup\<close> leaves the token, and a
  failed \<^verbatim>\<open>use\<close> the namespace and the database. After a failed
  \<^verbatim>\<open>authenticate(token)\<close> the stored token is \<open>token\<close>, and the rest is as
  before. A failed \<^verbatim>\<open>unset\<close> changes nothing.
\<close>

theorem failed_call_keeps_session:
  "(\<forall>err. result_of (authenticate e self fresh t) = Inl err \<longrightarrow>
      conn_of (authenticate e self fresh t) = self\<lparr>token := VStr t, self_id := fresh\<rparr>)
   \<and> (\<forall>err. result_of (invalidate e self fresh) = Inl err \<longrightarrow>
      conn_of (invalidate e self fresh) = self\<lparr>self_id := fresh\<rparr>)
   \<and> (\<forall>err. result_of (signup e self fresh vs) = Inl err \<longrightarrow>
      conn_of (signup e self fresh vs) = self\<lparr>self_id := fresh\<rparr>)
   \<and> (\<forall>err. result_of (signin e self fresh vs) = Inl err \<longrightarrow>
      conn_of (signin e self fresh vs) = self\<lparr>self_id := fresh\<rparr>)
   \<and> (\<forall>err. result_of (info e self fresh) = Inl err \<longrightarrow>
      conn_of (info e self fresh) = self\<lparr>self_id := fresh\<rparr>)
   \<and> (\<forall>err. result_of (use e self fresh ns db) = Inl err \<longrightarrow>
      conn_of (use e self fresh ns db) = self\<lparr>self_id := fresh\<rparr>)
   \<and> (\<forall>err. result_of (fst (query e self fresh q p)) = Inl err \<longrightarrow>
      conn_of (fst (query e self fresh q p)) = self\<lparr>self_id := fresh\<rparr>)
   \<and> (\<forall>err. result_of (fst (query_raw e self fresh q p)) = Inl err \<longrightarrow>
      conn_of (fst (query_raw e self fresh q p)) = self\<lparr>self_id := fresh\<rparr>)
   \<and> (\<forall>err. result_of (create e self fresh thing data) = Inl err \<longrightarrow>
      conn_of (create e self fresh thing data) = self\<lparr>self_id := fresh\<rparr>)
   \<and> (\<forall>err. result_of (delete e self fresh thing) = Inl err \<longrightarrow>
      conn_of (delete e self fresh thing) = self\<lparr>self_id := fresh\<rparr>)
   \<and> (\<forall>err. result_of (insert_op e self fresh table data) = Inl err \<longrightarrow>
      conn_of (insert_op e self fresh table data) = self\<lparr>self_id := fresh\<rparr>)
   \<and> (\<forall>err. result_of (insert_relation e self fresh table data) = Inl err \<longrightarrow>
      conn_of (insert_relation e self fresh table data) = self\<lparr>self_id := fresh\<rparr>)
   \<and> (\<forall>err. result_of (merge e self fresh thing data) = Inl err \<longrightarrow>
      conn_of (merge e self fresh thing data) = self\<lparr>self_id := fresh\<rparr>)
   \<and> (\<forall>err. result_of (patch e self fresh thing data) = Inl err \<longrightarrow>
      conn_of (patch e self fresh thing data) = self\<lparr>self_id := fresh\<rparr>)
   \<and> (\<forall>err. result_of (select e self fresh thing) = Inl err \<longrightarrow>
      conn_of (select e self fresh thing) = self\<lparr>self_id := fresh\<rparr>)
   \<and> (\<forall>err. result_of (update e self fresh thing data) = Inl err \<longrightarrow>
      conn_of (update e self fresh thing data) = self\<lparr>self_id := fresh\<rparr>)
   \<and> (\<forall>err. result_of (version e self fresh) = Inl err \<longrightarrow>
      conn_of (version e self fresh) = self\<lparr>self_id := fresh\<rparr>)
   \<and> (\<forall>err. result_of (upsert e self fresh thing data) = Inl err \<longrightarrow>
      conn_of (upsert e self fresh thing data) = self\<lparr>self_id := fresh\<rparr>)
   \<and> (\<forall>err. result_of (unset self key) = Inl err \<longrightarrow> conn_of (unset self key) = self)"
proof -
  have a0: "(\<forall>err. result_of (authenticate e self fresh t) = Inl err \<longrightarrow>
      conn_of (authenticate e self fresh t) = self\<lparr>token := VStr t, self_id := fresh\<rparr>)"
    by (simp add: authenticate_fail)
  have a1: "(\<forall>err. result_of (invalidate e self fresh) = Inl err \<longrightarrow>
      conn_of (invalidate e self fresh) = self\<lparr>self_id := fresh\<rparr>)"
    by (simp add: invalidate_fail)
  have a2: "(\<forall>err. result_of (signup e self fresh vs) = Inl err \<longrightarrow>
      conn_of (signup e self fresh vs) = self\<lparr>self_id := fresh\<rparr>)"
    by (simp add: signup_fail)
  have a3: "(\<forall>err. result_of (signin e self fresh vs) = Inl err \<longrightarrow>
      conn_of (signin e self fresh vs) = self\<lparr>self_id := fresh\<rparr>)"
    by (simp add: signin_fail)
  have a4: "(\<forall>err. result_of (info e self fresh) = Inl err \<longrightarrow>
      conn_of (info e self fresh) = self\<lparr>self_id := fresh\<rparr>)"
    by (simp add: info_fail)
  have a5: "(\<forall>err. result_of (use e self fresh ns db) = Inl err \<longrightarrow>
      conn_of (use e self fresh ns db) = self\<lparr>self_id := fresh\<rparr>)"
    by (simp add: use_fail)
  have a6: "(\<forall>err. result_of (fst (query e self fresh q p)) = Inl err \<longrightarrow>
      conn_of (fst (query e self fresh q p)) = self\<lparr>self_id := fresh\<rparr>)"
    by (simp add: query_fail)
  have a7: "(\<forall>err. result_of (fst (query_raw e self fresh q p)) = Inl err \<longrightarrow>
      conn_of (fst (query_raw e self fresh q p)) = self\<lparr>self_id := fresh\<rparr>)"
    by (simp add: query_raw_fail)
  have a8: "(\<forall>err. result_of (create e self fresh thing data) = Inl err \<longrightarrow>
      conn_of (create e self fresh thing data) = self\<lparr>self_id := fresh\<rparr>)"
    by (simp add: create_fail)
  have a9: "(\<forall>err. result_of (delete e self fresh thing) = Inl err \<longrightarrow>
      conn_of (delete e self fresh thing) = self\<lparr>self_id := fresh\<rparr>)"
    by (simp add: delete_fail)
  have a10: "(\<forall>err. result_of (insert_op e self fresh table data) = Inl err \<longrightarrow>
      conn_of (insert_op e self fresh table data) = self\<lparr>self_id := fresh\<rparr>)"
    by (simp add: insert_op_fail)
  have a11: "(\<forall>err. result_of (insert_relation e self fresh table data) = Inl err \<longrightarrow>
      conn_of (insert_relation e self fresh table data) = self\<lparr>self_id := fresh\<rparr>)"
    by (simp add: insert_relation_fail)
  have a12: "(\<forall>err. result_of (merge e self fresh thing data) = Inl err \<longrightarrow>
      conn_of (merge e self fresh thing data) = self\<lparr>self_id := fresh\<rparr>)"
    by (simp add: merge_fail)
  have a13: "(\<forall>err. result_of (patch e self fresh thing data) = Inl err \<longrightarrow>
      conn_of (patch e self fresh thing data) = self\<lparr>self_id := fresh\<rparr>)"
    by (simp add: patch_fail)
  have a14: "(\<forall>err. result_of (select e self fresh thing) = Inl err \<longrightarrow>
      conn_of (select e self fresh thing) = self\<lparr>self_id := fresh\<rparr>)"
    by (simp add: select_fail)
  have a15: "(\<forall>err. result_of (update e self fresh thing data) = Inl err \<longrightarrow>
      conn_of (update e self fresh thing data) = self\<lparr>self_id := fresh\<rparr>)"
    by (simp add: update_fail)
  have a16: "(\<forall>err. result_of (version e self fresh) = Inl err \<longrightarrow>
      conn_of (version e self fresh) = self\<lparr>self_id := fresh\<rparr>)"
    by (simp add: version_fail)
  have a17: "(\<forall>err. result_of (upsert e self fresh thing data) = Inl err \<longrightarrow>
      conn_of (upsert e self fresh thing data) = self\<lparr>self_id := fresh\<rparr>)"
    by (simp add: upsert_fail)
  have u: "(\<forall>err. result_of (unset self key) = Inl err \<longrightarrow> conn_of (unset self key) = self)"
    by (simp add: unset_def split: option.split)
  show ?thesis
    by (intro conjI a0 a1 a2 a3 a4 a5 a6 a7 a8 a9 a10 a11 a12 a13 a14 a15 a16 a17 u)
qed

text \<open>
  C5, at a connection whose token is \<^verbatim>\<open>abc\<close> and a server that is down:
  \<^verbatim>\<open>invalidate\<close> leaves \<^verbatim>\<open>abc\<close>, \<^verbatim>\<open>authenticate("tok")\<close> leaves
  \<^verbatim>\<open>tok\<close>.
\<close>

theorem failed_call_keeps_session_witness:
  "result_of (invalidate world_down (set_token c0 ''abc'') ''uuid-1'') = Inl (TransportError ''503 Service Unavailable'')
   \<and> token (conn_of (invalidate world_down (set_token c0 ''abc'') ''uuid-1'')) = VStr ''abc''
   \<and> result_of (authenticate world_down (set_token c0 ''abc'') ''uuid-1'' ''tok'')
       = Inl (TransportError ''503 Service Unavailable'')
   \<and> token (conn_of (authenticate world_down (set_token c0 ''abc'') ''uuid-1'' ''tok'')) = VStr ''tok''"
proof -
  let ?c = "set_token c0 ''abc''"
  have i: "result_of (invalidate world_down ?c ''uuid-1'') = Inl (TransportError ''503 Service Unavailable'')"
    by (simp add: invalidate_def Let_def split_beta send_result world_down_def)
  have a: "result_of (authenticate world_down ?c ''uuid-1'' ''tok'')
             = Inl (TransportError ''503 Service Unavailable'')"
    by (simp add: authenticate_def Let_def split_beta send_result world_down_def)
  have t: "token ?c = VStr ''abc''"
    by (simp add: set_token_def)
  show ?thesis
    using i a t
      failed_call_keeps_session [where e = world_down and self = ?c and fresh = "''uuid-1''"
        and t = "''tok''"]
    by simp
qed

subsection \<open>C6: the namespace and database headers\<close>

text \<open>
  C6 says that the two headers are sent only when both the namespace and the database
  are set. Each has its own test: a connection with the namespace \<^verbatim>\<open>ns1\<close> and no
  database sends \<^verbatim>\<open>Surreal-NS\<close> alone, and so does the connection left by a
  successful \<^verbatim>\<open>use("ns1", "")\<close>.
\<close>

theorem namespace_header_without_database:
  "namespace (c0\<lparr>namespace := Some ''ns1''\<rparr>) = Some ''ns1''
   \<and> database (c0\<lparr>namespace := Some ''ns1''\<rparr>) = None
   \<and> snd (send world_down (c0\<lparr>namespace := Some ''ns1''\<rparr>) (RequestMessage ''uuid-1'' INFO [])
           ''getting database information'' False) =
     [\<lparr>req_url = ''http://localhost:8000/rpc'',
       req_headers = [(''Accept'', ''application/cbor''), (''Content-Type'', ''application/cbor''),
                      (''Surreal-NS'', ''ns1'')],
       req_data = \<lparr>msg_id = ''uuid-1'', msg_method = INFO, kwargs = []\<rparr>,
       req_timeout = 30\<rparr>]
   \<and> result_of (use (world_reply payload_ok) c0 ''uuid-1'' ''ns1'' []) = Inr ()
   \<and> wire_of (info world_down (conn_of (use (world_reply payload_ok) c0 ''uuid-1'' ''ns1'' []))
        ''uuid-2'') =
     [\<lparr>req_url = ''http://localhost:8000/rpc'',
       req_headers = [(''Accept'', ''application/cbor''), (''Content-Type'', ''application/cbor''),
                      (''Surreal-NS'', ''ns1'')],
       req_data = \<lparr>msg_id = ''uuid-2'', msg_method = INFO, kwargs = []\<rparr>,
       req_timeout = 30\<rparr>]"
proof -
  have a: "snd (send world_down (c0\<lparr>namespace := Some ''ns1''\<rparr>) (RequestMessage ''uuid-1'' INFO [])
           ''getting database information'' False) =
     [\<lparr>req_url = ''http://localhost:8000/rpc'',
       req_headers = [(''Accept'', ''application/cbor''), (''Content-Type'', ''application/cbor''),
                      (''Surreal-NS'', ''ns1'')],
       req_data = \<lparr>msg_id = ''uuid-1'', msg_method = INFO, kwargs = []\<rparr>,
       req_timeout = 30\<rparr>]"
    by (simp add: send_wire request_of_def RequestMessage_def send_headers_def c0_def init_def
        sample_parse_def)
  have b: "result_of (use (world_reply payload_ok) c0 ''uuid-1'' ''ns1'' []) = Inr ()"
    by (simp add: use_def Let_def split_beta send_result world_reply_def payload_ok_def
        check_response_for_error_def)
  have c: "conn_of (use (world_reply payload_ok) c0 ''uuid-1'' ''ns1'' [])
             = c0\<lparr>self_id := ''uuid-1'', namespace := Some ''ns1'', database := Some []\<rparr>"
    using b by (simp add: use_def Let_def split_beta split: sum.splits)
  have d: "wire_of (info world_down (conn_of (use (world_reply payload_ok) c0 ''uuid-1'' ''ns1'' []))
        ''uuid-2'') =
     [\<lparr>req_url = ''http://localhost:8000/rpc'',
       req_headers = [(''Accept'', ''application/cbor''), (''Content-Type'', ''application/cbor''),
                      (''Surreal-NS'', ''ns1'')],
       req_data = \<lparr>msg_id = ''uuid-2'', msg_method = INFO, kwargs = []\<rparr>,
       req_timeout = 30\<rparr>]"
    unfolding c
    by (simp add: info_wire request_of_def RequestMessage_def send_headers_def c0_def init_def
        sample_parse_def)
  have e: "namespace (c0\<lparr>namespace := Some ''ns1''\<rparr>) = Some ''ns1''
           \<and> database (c0\<lparr>namespace := Some ''ns1''\<rparr>) = None"
    by (simp add: c0_def init_def)
  from a b d e show ?thesis by simp
qed

text \<open>
  C6, as the code has it. Every request \<^verbatim>\<open>_send\<close> posts carries
  \<^verbatim>\<open>Surreal-NS\<close> exactly when the namespace is set and not empty, with the
  namespace as its value, and \<^verbatim>\<open>Surreal-DB\<close> exactly when the database is set and
  not empty, with the database as its value; neither depends on the other.
\<close>

theorem namespace_database_headers_independent:
  "snd (send e self m l b) = [request_of e self m]
   \<and> map_of (req_headers (request_of e self m)) ''Surreal-NS'' =
       (case namespace self of None \<Rightarrow> None | Some ns \<Rightarrow> if ns = [] then None else Some ns)
   \<and> map_of (req_headers (request_of e self m)) ''Surreal-DB'' =
       (case database self of None \<Rightarrow> None | Some db \<Rightarrow> if db = [] then None else Some db)"
  by (simp add: send_wire request_of_def send_headers_namespace send_headers_database)

subsection \<open>C7: query unwraps, query_raw does not\<close>

text \<open>
  C7. When the request of \<^verbatim>\<open>query(q, p)\<close> is answered with a payload that has no
  \<^verbatim>\<open>error\<close> and whose \<^verbatim>\<open>result\<close> is a list that starts with a mapping
  holding \<open>R\<close> under \<^verbatim>\<open>result\<close>, then \<^verbatim>\<open>query\<close> returns \<open>R\<close>;
  \<^verbatim>\<open>query_raw\<close> sends the same request and returns the payload as it is.
\<close>

theorem query_unwraps_first_statement:
  assumes "wire_of (fst (query e self fresh q p)) = [r]"
    and "post e r = Inr payload"
    and "map_of payload ''error'' = None"
    and "map_of payload ''result'' = Some (VList (VDict d # rest))"
    and "map_of d ''result'' = Some R"
  shows "result_of (fst (query e self fresh q p)) = Inr R
       \<and> wire_of (fst (query_raw e self fresh q p)) = [r]
       \<and> result_of (fst (query_raw e self fresh q p)) = Inr payload"
proof -
  let ?r = "request_of e (self\<lparr>self_id := fresh\<rparr>)
              (RequestMessage fresh QUERY [(''query'', VStr q),
                 (''params'', VDict (write_vars (vars self) (case p of None \<Rightarrow> [] | Some d \<Rightarrow> d)))])"
  from assms(1) have r: "?r = r"
    by (simp add: query_wire)
  with assms(2) have post: "post e ?r = Inr payload"
    by simp
  have typed: "result_of (fst (query e self fresh q p)) = Inr R"
    unfolding query_def using post assms(3-5)
    by (simp add: Let_def split_beta send_result check_response_for_error_def
        check_response_for_result_def getitem_def)
  have raw_wire: "wire_of (fst (query_raw e self fresh q p)) = [r]"
    using r by (simp add: query_raw_wire)
  have raw: "result_of (fst (query_raw e self fresh q p)) = Inr payload"
    unfolding query_raw_def using post
    by (simp add: Let_def split_beta send_result)
  from typed raw_wire raw show ?thesis by simp
qed

text \<open>
  C7, at the payload \<^verbatim>\<open>{result: [{result: [{"id": "t:1"}]}]}\<close> of the
  specification.
\<close>

theorem query_unwraps_first_statement_witness:
  "post (world_reply payload_rows)
     (request_of (world_reply payload_rows) (c0\<lparr>self_id := ''uuid-1''\<rparr>)
        (RequestMessage ''uuid-1'' QUERY [(''query'', VStr ''SELECT * FROM t''), (''params'', VDict [])]))
     = Inr payload_rows
   \<and> map_of payload_rows ''error'' = None
   \<and> result_of (fst (query (world_reply payload_rows) c0 ''uuid-1'' ''SELECT * FROM t'' None))
       = Inr (VList [VDict [(''id'', VStr ''t:1'')]])
   \<and> result_of (fst (query_raw (world_reply payload_rows) c0 ''uuid-1'' ''SELECT * FROM t'' None))
       = Inr payload_rows"
proof -
  let ?w = "world_reply payload_rows"
  let ?r = "request_of ?w (c0\<lparr>self_id := ''uuid-1''\<rparr>)
        (RequestMessage ''uuid-1'' QUERY [(''query'', VStr ''SELECT * FROM t''), (''params'', VDict [])])"
  have w: "wire_of (fst (query ?w c0 ''uuid-1'' ''SELECT * FROM t'' None)) = [?r]"
    by (simp add: query_wire c0_def init_def)
  have p: "post ?w ?r = Inr payload_rows"
    by (simp add: world_reply_def)
  have e: "map_of payload_rows ''error'' = None"
    by (simp add: payload_rows_def)
  have r: "map_of payload_rows ''result''
             = Some (VList (VDict [(''result'', VList [VDict [(''id'', VStr ''t:1'')]])] # []))"
    by (simp add: payload_rows_def)
  have d: "map_of [(''result'', VList [VDict [(''id'', VStr ''t:1'')]])] ''result''
             = Some (VList [VDict [(''id'', VStr ''t:1'')]])"
    by simp
  show ?thesis
    using p e query_unwraps_first_statement [OF w p e r d] by simp
qed

subsection \<open>C8: a server-side error\<close>

text \<open>
  C8. When every request is answered with a payload whose \<^verbatim>\<open>error\<close> is an object
  with the code \<open>code\<close> and the message \<open>msg\<close>, every operation that validates its
  response fails with the RemoteError of that code and message and of the operation's
  own label; \<^verbatim>\<open>query_raw\<close> returns the payload and does not fail. The validator
  is the one the specification describes.
\<close>

theorem remote_error_surfaces:
  assumes "\<And>r. post e r = Inr payload"
    and "map_of payload ''error'' = Some (VDict eo)"
    and "map_of eo ''code'' = Some code"
    and "map_of eo ''message'' = Some msg"
  shows "result_of (authenticate e self fresh t) = Inl (RemoteError code msg ''authenticating'')
     \<and> result_of (invalidate e self fresh) = Inl (RemoteError code msg ''invalidating'')
     \<and> result_of (signup e self fresh vs) = Inl (RemoteError code msg ''signup'')
     \<and> result_of (signin e self fresh vs) = Inl (RemoteError code msg ''signing in'')
     \<and> result_of (info e self fresh) = Inl (RemoteError code msg ''getting database information'')
     \<and> result_of (use e self fresh ns db) = Inl (RemoteError code msg ''use'')
     \<and> result_of (fst (query e self fresh q p)) = Inl (RemoteError code msg ''query'')
     \<and> result_of (create e self fresh thing data) = Inl (RemoteError code msg ''create'')
     \<and> result_of (delete e self fresh thing) = Inl (RemoteError code msg ''delete'')
     \<and> result_of (insert_op e self fresh table data) = Inl (RemoteError code msg ''insert'')
     \<and> result_of (insert_relation e self fresh table data) = Inl (RemoteError code msg ''insert_relation'')
     \<and> result_of (merge e self fresh thing data) = Inl (RemoteError code msg ''merge'')
     \<and> result_of (patch e self fresh thing data) = Inl (RemoteError code msg ''patch'')
     \<and> result_of (select e self fresh thing) = Inl (RemoteError code msg ''select'')
     \<and> result_of (update e self fresh thing data) = Inl (RemoteError code msg ''update'')
     \<and> result_of (version e self fresh) = Inl (RemoteError code msg ''getting database version'')
     \<and> result_of (upsert e self fresh thing data) = Inl (RemoteError code msg ''upsert'')
     \<and> result_of (fst (query_raw e self fresh q p)) = Inr payload"
proof -
  note p = assms(1)
  have c: "check_response_for_error payload l = Inl (RemoteError code msg l)" for l
    using assms(2-4) by (simp add: check_response_for_error_def error_field_def dict_get_def)
  have a0: "result_of (authenticate e self fresh t) = Inl (RemoteError code msg ''authenticating'')"
    by (rule authenticate_checks [OF p c])
  have a1: "result_of (invalidate e self fresh) = Inl (RemoteError code msg ''invalidating'')"
    by (rule invalidate_checks [OF p c])
  have a2: "result_of (signup e self fresh vs) = Inl (RemoteError code msg ''signup'')"
    by (rule signup_checks [OF p c])
  have a3: "result_of (signin e self fresh vs) = Inl (RemoteError code msg ''signing in'')"
    by (rule signin_checks [OF p c])
  have a4: "result_of (info e self fresh) = Inl (RemoteError code msg ''getting database information'')"
    by (rule info_checks [OF p c])
  have a5: "result_of (use e self fresh ns db) = Inl (RemoteError code msg ''use'')"
    by (rule use_checks [OF p c])
  have a6: "result_of (fst (query e self fresh q p)) = Inl (RemoteError code msg ''query'')"
    by (rule query_checks [OF p c])
  have a7: "result_of (create e self fresh thing data) = Inl (RemoteError code msg ''create'')"
    by (rule create_checks [OF p c])
  have a8: "result_of (delete e self fresh thing) = Inl (RemoteError code msg ''delete'')"
    by (rule delete_checks [OF p c])
  have a9: "result_of (insert_op e self fresh table data) = Inl (RemoteError code msg ''insert'')"
    by (rule insert_op_checks [OF p c])
  have a10: "result_of (insert_relation e self fresh table data) = Inl (RemoteError code msg ''insert_relation'')"
    by (rule insert_relation_checks [OF p c])
  have a11: "result_of (merge e self fresh thing data) = Inl (RemoteError code msg ''merge'')"
    by (rule merge_checks [OF p c])
  have a12: "result_of (patch e self fresh thing data) = Inl (RemoteError code msg ''patch'')"
    by (rule patch_checks [OF p c])
  have a13: "result_of (select e self fresh thing) = Inl (RemoteError code msg ''select'')"
    by (rule select_checks [OF p c])
  have a14: "result_of (update e self fresh thing data) = Inl (RemoteError code msg ''update'')"
    by (rule update_checks [OF p c])
  have a15: "result_of (version e self fresh) = Inl (RemoteError code msg ''getting database version'')"
    by (rule version_checks [OF p c])
  have a16: "result_of (upsert e self fresh thing data) = Inl (RemoteError code msg ''upsert'')"
    by (rule upsert_checks [OF p c])
  have raw: "result_of (fst (query_raw e self fresh q p)) = Inr payload"
    unfolding query_raw_def by (simp add: Let_def split_beta send_result p)
  show ?thesis
    by (intro conjI a0 a1 a2 a3 a4 a5 a6 a7 a8 a9 a10 a11 a12 a13 a14 a15 a16 raw)
qed

text \<open>
  C8, at the payload \<^verbatim>\<open>{error: {code: 100, message: "boom"}}\<close> of the
  specification.
\<close>

theorem remote_error_surfaces_witness:
  "map_of payload_error ''error'' = Some (VDict [(''code'', VInt 100), (''message'', VStr ''boom'')])
   \<and> result_of (create (world_reply payload_error) c0 ''uuid-1'' (VStr ''person'') VNone)
       = Inl (RemoteError (VInt 100) (VStr ''boom'') ''create'')
   \<and> result_of (signin (world_reply payload_error) c0 ''uuid-1'' [])
       = Inl (RemoteError (VInt 100) (VStr ''boom'') ''signing in'')
   \<and> result_of (fst (query (world_reply payload_error) c0 ''uuid-1'' ''SELECT 1'' None))
       = Inl (RemoteError (VInt 100) (VStr ''boom'') ''query'')
   \<and> result_of (fst (query_raw (world_reply payload_error) c0 ''uuid-1'' ''SELECT 1'' None))
       = Inr payload_error"
proof -
  have p: "post (world_reply payload_error) r = Inr payload_error" for r
    by (simp add: world_reply_def)
  have e: "map_of payload_error ''error''
             = Some (VDict [(''code'', VInt 100), (''message'', VStr ''boom'')])"
    by (simp add: payload_error_def)
  have c: "map_of [(''code'', VInt 100), (''message'', VStr ''boom'')] ''code'' = Some (VInt 100)"
    by simp
  have m: "map_of [(''code'', VInt 100), (''message'', VStr ''boom'')] ''message'' = Some (VStr ''boom'')"
    by simp
  show ?thesis
    using e
      remote_error_surfaces [OF p e c m, where self = c0 and fresh = "''uuid-1''"
        and thing = "VStr ''person''" and data = VNone and vs = "[]" and q = "''SELECT 1''"
        and p = None]
    by simp
qed

subsection \<open>C9: which operations go to the server\<close>

text \<open>
  C9 says that every operation, \<^verbatim>\<open>let\<close> and \<^verbatim>\<open>unset\<close> among them, builds
  an envelope, sends it and overwrites the connection's id. \<^verbatim>\<open>let("x", 1)\<close> on a
  fresh connection puts nothing on the wire and leaves the id the connection was made
  with; it only binds the variable.
\<close>

theorem let_sends_nothing:
  "wire_of (let_op c0 ''x'' (VInt 1)) = []
   \<and> self_id c0 = ''uuid-0''
   \<and> self_id (conn_of (let_op c0 ''x'' (VInt 1))) = ''uuid-0''
   \<and> vars (conn_of (let_op c0 ''x'' (VInt 1))) = [(''x'', VInt 1)]"
  by (simp add: let_op_def c0_def init_def)

text \<open>
  C9, as the code has it. Every operation but \<^verbatim>\<open>let\<close> and \<^verbatim>\<open>unset\<close>
  builds an envelope of its method with the fresh correlation id, puts exactly one
  request with that envelope on the wire, and leaves the fresh id as the connection's
  id; every one of them but \<^verbatim>\<open>query_raw\<close> fails with the validator's failure when
  the decoded response does not pass it. \<^verbatim>\<open>let\<close> and \<^verbatim>\<open>unset\<close> put nothing
  on the wire and leave the connection's id as it was.
\<close>

theorem remote_operations_dispatch_local_ones_do_not:
  "dispatched fresh AUTHENTICATE (authenticate e self fresh t)
   \<and> dispatched fresh INVALIDATE (invalidate e self fresh)
   \<and> dispatched fresh SIGN_UP (signup e self fresh vs)
   \<and> dispatched fresh SIGN_IN (signin e self fresh vs)
   \<and> dispatched fresh INFO (info e self fresh)
   \<and> dispatched fresh USE (use e self fresh ns db)
   \<and> dispatched fresh QUERY (fst (query e self fresh q p))
   \<and> dispatched fresh QUERY (fst (query_raw e self fresh q p))
   \<and> dispatched fresh CREATE (create e self fresh thing data)
   \<and> dispatched fresh DELETE (delete e self fresh thing)
   \<and> dispatched fresh INSERT (insert_op e self fresh table data)
   \<and> dispatched fresh INSERT_RELATION (insert_relation e self fresh table data)
   \<and> dispatched fresh MERGE (merge e self fresh thing data)
   \<and> dispatched fresh PATCH (patch e self fresh thing data)
   \<and> dispatched fresh SELECT (select e self fresh thing)
   \<and> dispatched fresh UPDATE (update e self fresh thing data)
   \<and> dispatched fresh VERSION (version e self fresh)
   \<and> dispatched fresh UPSERT (upsert e self fresh thing data)
   \<and> validated e ''authenticating'' (authenticate e self fresh t)
   \<and> validated e ''invalidating'' (invalidate e self fresh)
   \<and> validated e ''signup'' (signup e self fresh vs)
   \<and> validated e ''signing in'' (signin e self fresh vs)
   \<and> validated e ''getting database information'' (info e self fresh)
   \<and> validated e ''use'' (use e self fresh ns db)
   \<and> validated e ''query'' (fst (query e self fresh q p))
   \<and> validated e ''create'' (create e self fresh thing data)
   \<and> validated e ''delete'' (delete e self fresh thing)
   \<and> validated e ''insert'' (insert_op e self fresh table data)
   \<and> validated e ''insert_relation'' (insert_relation e self fresh table data)
   \<and> validated e ''merge'' (merge e self fresh thing data)
   \<and> validated e ''patch'' (patch e self fresh thing data)
   \<and> validated e ''select'' (select e self fresh thing)
   \<and> validated e ''update'' (update e self fresh thing data)
   \<and> validated e ''getting database version'' (version e self fresh)
   \<and> validated e ''upsert'' (upsert e self fresh thing data)
   \<and> wire_of (let_op self key val) = [] \<and> self_id (conn_of (let_op self key val)) = self_id self
   \<and> wire_of (unset self key) = [] \<and> self_id (conn_of (unset self key)) = self_id self"
proof -
  have l1: "wire_of (let_op self key val) = []" by (simp add: let_op_def)
  have l2: "self_id (conn_of (let_op self key val)) = self_id self" by (simp add: let_op_def)
  have u1: "wire_of (unset self key) = []" by (simp add: unset_def split: option.split)
  have u2: "self_id (conn_of (unset self key)) = self_id self" by (simp add: unset_def split: option.split)
  show ?thesis
    by (intro conjI authenticate_dispatched invalidate_dispatched signup_dispatched
        signin_dispatched info_dispatched use_dispatched query_dispatched query_raw_dispatched
        create_dispatched delete_dispatched insert_op_dispatched insert_relation_dispatched
        merge_dispatched patch_dispatched select_dispatched update_dispatched version_dispatched
        upsert_dispatched authenticate_validated invalidate_validated signup_validated
        signin_validated info_validated use_validated query_validated create_validated
        delete_validated insert_op_validated insert_relation_validated merge_validated
        patch_validated select_validated update_validated version_validated upsert_validated l1 l2
        u1 u2)
qed

text \<open>C9, as the code has it, at a fresh connection and an answer that carries an error.\<close>

theorem remote_operations_dispatch_local_ones_do_not_witness:
  "dispatched ''uuid-1'' SELECT (select (world_reply payload_error) c0 ''uuid-1'' (VStr ''person''))
   \<and> validated (world_reply payload_error) ''select''
        (select (world_reply payload_error) c0 ''uuid-1'' (VStr ''person''))
   \<and> result_of (select (world_reply payload_error) c0 ''uuid-1'' (VStr ''person''))
       = Inl (RemoteError (VInt 100) (VStr ''boom'') ''select'')
   \<and> wire_of (unset (conn_of (let_op c0 ''x'' (VInt 1))) ''x'') = []
   \<and> self_id (conn_of (unset (conn_of (let_op c0 ''x'' (VInt 1))) ''x'')) = ''uuid-0''"
proof -
  have r: "result_of (select (world_reply payload_error) c0 ''uuid-1'' (VStr ''person''))
             = Inl (RemoteError (VInt 100) (VStr ''boom'') ''select'')"
    by (simp add: select_def Let_def split_beta send_result world_reply_def payload_error_def
        check_response_for_error_def error_field_def dict_get_def)
  have i: "self_id (conn_of (let_op c0 ''x'' (VInt 1))) = ''uuid-0''"
    by (simp add: let_op_def c0_def init_def)
  show ?thesis
    using r i
      remote_operations_dispatch_local_ones_do_not [where e = "world_reply payload_error"
        and self = c0 and fresh = "''uuid-1''" and thing = "VStr ''person''"]
      remote_operations_dispatch_local_ones_do_not [where
        self = "conn_of (let_op c0 ''x'' (VInt 1))" and key = "''x''"]
    by simp
qed

subsection \<open>C10: the caller's mapping is written to\<close>

text \<open>
  C10. \<^verbatim>\<open>query(q, p)\<close> and \<^verbatim>\<open>query_raw(q, p)\<close> write every bound variable
  into the mapping \<open>p\<close> the caller passed: after the call, that mapping maps each bound
  name to its bound value. This holds for every world, hence also when the request
  fails.
\<close>

theorem query_writes_into_callers_mapping:
  assumes "distinct (map fst (vars self))"
    and "map_of (vars self) k = Some v"
  shows "map_of (snd (query e self fresh q (Some p))) k = Some v
       \<and> map_of (snd (query_raw e self fresh q (Some p))) k = Some v"
  using assms by (simp add: query_mapping query_raw_mapping write_vars_lookup)

text \<open>
  C10, at a server that is down: the call fails, and the caller's mapping
  \<^verbatim>\<open>{"y": 5, "x": 2}\<close> has become \<^verbatim>\<open>{"y": 5, "x": 1}\<close>.
\<close>

theorem query_writes_into_callers_mapping_witness:
  "distinct (map fst (vars (conn_of (let_op c0 ''x'' (VInt 1)))))
   \<and> map_of (vars (conn_of (let_op c0 ''x'' (VInt 1)))) ''x'' = Some (VInt 1)
   \<and> result_of (fst (query world_down (conn_of (let_op c0 ''x'' (VInt 1))) ''uuid-1''
         ''RETURN $x'' (Some [(''y'', VInt 5), (''x'', VInt 2)])))
       = Inl (TransportError ''503 Service Unavailable'')
   \<and> snd (query world_down (conn_of (let_op c0 ''x'' (VInt 1))) ''uuid-1''
         ''RETURN $x'' (Some [(''y'', VInt 5), (''x'', VInt 2)]))
       = [(''y'', VInt 5), (''x'', VInt 1)]
   \<and> map_of (snd (query world_down (conn_of (let_op c0 ''x'' (VInt 1))) ''uuid-1''
         ''RETURN $x'' (Some [(''y'', VInt 5), (''x'', VInt 2)]))) ''x'' = Some (VInt 1)
   \<and> map_of (snd (query_raw world_down (conn_of (let_op c0 ''x'' (VInt 1))) ''uuid-1''
         ''RETURN $x'' (Some [(''y'', VInt 5), (''x'', VInt 2)]))) ''x'' = Some (VInt 1)"
proof -
  let ?c = "conn_of (let_op c0 ''x'' (VInt 1))"
  have d: "distinct (map fst (vars ?c))"
    by (simp add: let_op_def c0_def init_def)
  have b: "map_of (vars ?c) ''x'' = Some (VInt 1)"
    by (simp add: let_op_def c0_def init_def)
  have f: "result_of (fst (query world_down ?c ''uuid-1'' ''RETURN $x''
             (Some [(''y'', VInt 5), (''x'', VInt 2)])))
           = Inl (TransportError ''503 Service Unavailable'')"
    by (simp add: query_def Let_def split_beta send_result world_down_def)
  have m: "snd (query world_down ?c ''uuid-1'' ''RETURN $x''
             (Some [(''y'', VInt 5), (''x'', VInt 2)])) = [(''y'', VInt 5), (''x'', VInt 1)]"
    by (simp add: query_mapping let_op_def c0_def init_def)
  show ?thesis
    using d b f m
      query_writes_into_callers_mapping [OF d b, of world_down "''uuid-1''" "''RETURN $x''"
        "[(''y'', VInt 5), (''x'', VInt 2)]"]
    by simp
qed

end
